theory Spec2Isabelle
  imports Complex_Main "HOL-Library.Word"
begin

section \<open>Engine types shared by the two bridges\<close>

text \<open>
  The bridges are Unreal Engine components.  The engine's own types are not part of the
  repository; the model fixes the few properties of them that the bridge code relies on.
  An \<open>FString\<close> is a character string.  The engine compares two \<open>FString\<close>s ignoring
  case: \<open>operator==\<close> is \<open>Stricmp(..) == 0\<close>, and the key functions of a
  \<open>TMap<FString, ..>\<close> hash and compare the keys the same way.  \<open>ToUpper\<close> folds the
  letters \<open>a\<close> to \<open>z\<close>; other characters are compared as they are.
\<close>

type_synonym FString = string

abbreviation apostrophe :: FString where
  "apostrophe \<equiv> [CHR 0x27]"

definition ToUpper :: "char \<Rightarrow> char" where
  "ToUpper c =
     (let n = (of_char c :: nat)
      in if 97 \<le> n \<and> n \<le> 122 then ''ABCDEFGHIJKLMNOPQRSTUVWXYZ'' ! (n - 97) else c)"

definition FString_eq :: "FString \<Rightarrow> FString \<Rightarrow> bool" where
  "FString_eq a c = (map ToUpper a = map ToUpper c)"

text \<open>
  A \<open>TMap<FString, V>\<close> is the list of its pairs in the order of their insertion.  This
  is the order in which the engine iterates over a map from which nothing was removed,
  as the local map of \<open>ProcessBatchedUpdates\<close>; no property below depends on the order of
  any other map.  No two keys of a map are equal as \<open>FString\<close>s.  \<open>TMap_Find\<close> is the
  lookup behind \<open>Find\<close>, \<open>Contains\<close> and \<open>operator[]\<close>.  \<open>Add\<close> on a key that is
  present replaces the pair, key included, in its place.  \<open>TMap_Modify k f\<close> is an update
  of the value through the reference that \<open>Map[k]\<close> returns: the stored key keeps its
  spelling.
\<close>

type_synonym 'v TMap = "(FString \<times> 'v) list"

fun TMap_Find :: "'v TMap \<Rightarrow> FString \<Rightarrow> 'v option" where
  "TMap_Find [] k = None"
| "TMap_Find ((k', v) # m) k = (if FString_eq k' k then Some v else TMap_Find m k)"

definition TMap_Contains :: "'v TMap \<Rightarrow> FString \<Rightarrow> bool" where
  "TMap_Contains m k = (case TMap_Find m k of None \<Rightarrow> False | Some v \<Rightarrow> True)"

fun TMap_Add :: "FString \<Rightarrow> 'v \<Rightarrow> 'v TMap \<Rightarrow> 'v TMap" where
  "TMap_Add k v [] = [(k, v)]"
| "TMap_Add k v ((k', v') # m) =
     (if FString_eq k' k then (k, v) # m else (k', v') # TMap_Add k v m)"

fun TMap_Modify :: "FString \<Rightarrow> ('v \<Rightarrow> 'v) \<Rightarrow> 'v TMap \<Rightarrow> 'v TMap" where
  "TMap_Modify k f [] = []"
| "TMap_Modify k f ((k', v) # m) =
     (if FString_eq k' k then (k', f v) # m else (k', v) # TMap_Modify k f m)"

definition TMap_Remove :: "FString \<Rightarrow> 'v TMap \<Rightarrow> 'v TMap" where
  "TMap_Remove k m = filter (\<lambda>(k', v). \<not> FString_eq k' k) m"

definition TMap_Num :: "'v TMap \<Rightarrow> nat" where
  "TMap_Num m = length m"

text \<open>
  \<open>FString::Contains(SubStr)\<close> searches with the engine's default
  \<open>ESearchCase::IgnoreCase\<close>: the bridges never pass a search case.  The bridges call it
  with the non-empty literals \<open>ERROR\<close> and \<open>true\<close> only.
\<close>

fun StartsWithIgnoreCase :: "FString \<Rightarrow> FString \<Rightarrow> bool" where
  "StartsWithIgnoreCase s [] = True"
| "StartsWithIgnoreCase [] (p # ps) = False"
| "StartsWithIgnoreCase (c # cs) (p # ps) = (ToUpper c = ToUpper p \<and> StartsWithIgnoreCase cs ps)"

fun Contains :: "FString \<Rightarrow> FString \<Rightarrow> bool" where
  "Contains [] SubStr = StartsWithIgnoreCase [] SubStr"
| "Contains (c # cs) SubStr = (StartsWithIgnoreCase (c # cs) SubStr \<or> Contains cs SubStr)"

text \<open>
  Binary floating point.  A finite \<open>float\<close> or \<open>double\<close> is modelled by the real number it
  denotes.  \<open>RoundHalfEven r\<close> is the integer nearest to \<open>r\<close>, the even one of the two when
  \<open>r\<close> lies halfway.  \<open>RoundTo p x\<close> is the number with \<open>p\<close> significant binary digits
  nearest to \<open>x\<close>, with the same rule for a tie (the default rounding of IEEE 754).  The
  exponent is not bounded: overflow to an infinity and the subnormal numbers are not
  modelled, the times and intervals of the bridges being finite and of moderate size.
  \<open>ToFloat x\<close> is what a \<open>float\<close> holds after \<open>x\<close> is stored into it, and the result of
  a \<open>float\<close> operation whose exact result is \<open>x\<close>; \<open>ToDouble\<close> is the same for
  \<open>double\<close>.
\<close>

definition RoundHalfEven :: "real \<Rightarrow> int" where
  "RoundHalfEven r =
     (let f = \<lfloor>r\<rfloor>
      in if r - of_int f < 1 / 2 then f
         else if 1 / 2 < r - of_int f then f + 1
         else if even f then f else f + 1)"

definition RoundTo :: "nat \<Rightarrow> real \<Rightarrow> real" where
  "RoundTo p x =
     (if x = 0 then 0
      else (let ulp = 2 powr (of_int \<lfloor>log 2 \<bar>x\<bar>\<rfloor> - of_nat p + 1)
            in ulp * of_int (RoundHalfEven (x / ulp))))"

definition ToFloat :: "real \<Rightarrow> real" where
  "ToFloat x = RoundTo 24 x"

definition ToDouble :: "real \<Rightarrow> real" where
  "ToDouble x = RoundTo 53 x"

datatype ELogVerbosity = Log | Warning | Error

text \<open>
  JSON documents of the engine's \<open>Dom/JsonObject.h\<close>.  A \<open>TSharedPtr<FJsonObject>\<close> is an
  \<open>FJsonObject option\<close>, \<open>None\<close> being the invalid (null) pointer.
\<close>

datatype FJsonValue =
  JsonNull
| JsonBoolean bool
| JsonNumber real
| JsonString FString
| JsonArray "FJsonValue list"
| JsonObject "(FString \<times> FJsonValue) list"

type_synonym FJsonObject = "(FString \<times> FJsonValue) list"

text \<open>
  A floating-point value with all its cases, as a component of an \<open>FVector\<close> and a
  number of a JSON object can be: a finite number (\<open>Finite 0\<close> is the positive zero),
  the negative zero, one of the two infinities (\<open>True\<close>: the negative one) or a NaN with
  its sign and payload.
\<close>

datatype FScalar = Finite real | NegativeZero | Infinity bool | NaN bool nat

text \<open>What a script evaluates to in the V8 context, as far as the bridge inspects it.\<close>

datatype FV8Value =
  V8String FString
| V8Undefined
| V8Null
| V8Other FString

text \<open>
  The host of the components: what the engine, the platform and the embedded script
  runtime supply.
  \<^item> \<open>WITH_V8\<close> is the compile-time switch;
  \<^item> \<open>ProjectContentDir\<close>, \<open>ProjectDir\<close>, \<open>FileExists\<close> and \<open>LoadFileToString\<close> are the
    project's paths and files (\<open>None\<close>: the file does not load);
  \<^item> \<open>NowTicks k\<close> is the \<open>k\<close>-th reading of \<open>FDateTime::Now().GetTicks()\<close>;
  \<open>GetTimeSeconds\<close> is \<open>GetWorld()->GetTimeSeconds()\<close> of the current frame;
  \<^item> \<open>PrintfNonFinite\<close> is what \<open>%.2f\<close> prints for an infinity or a NaN, and
    \<open>ToVectorScalar\<close> converts a \<open>double\<close> to the type of the components of an
    \<open>FVector\<close> (both depend on the platform and on the engine version);
  \<^item> \<open>GetNumberField\<close> is \<open>FJsonObject::GetNumberField\<close>, which returns a \<open>double\<close>;
  \<^item> \<open>V8_EngineInitialize\<close> and \<open>V8_CreateContext\<close> tell whether the V8 engine starts and
    hands out a valid context;
  \<^item> \<open>V8_ExecuteScript history Script\<close> is the outcome of running \<open>Script\<close> in a context
    that has already run the scripts of \<open>history\<close>: \<open>Inl what\<close> when a \<open>std::exception\<close>
    is thrown, \<open>Inr value\<close> otherwise;
  \<^item> \<open>Serialize\<close> and \<open>SerializeArray\<close> are \<open>FJsonSerializer::Serialize\<close> on an object
    and on an array of values; \<open>Deserialize\<close> is \<open>FJsonSerializer::Deserialize\<close> on a reader
    of a string, \<open>None\<close> when the string does not parse to a valid object.
\<close>

record FHost =
  WITH_V8 :: bool
  ProjectContentDir :: FString
  ProjectDir :: FString
  FileExists :: "FString \<Rightarrow> bool"
  LoadFileToString :: "FString \<Rightarrow> FString option"
  NowTicks :: "nat \<Rightarrow> int"
  GetTimeSeconds :: real
  V8_EngineInitialize :: bool
  V8_CreateContext :: bool
  V8_ExecuteScript :: "FString list \<Rightarrow> FString \<Rightarrow> FString + FV8Value"
  Serialize :: "FJsonObject \<Rightarrow> FString"
  SerializeArray :: "FJsonValue option list \<Rightarrow> FString"
  Deserialize :: "FString \<Rightarrow> FJsonObject option"
  PrintfNonFinite :: "FScalar \<Rightarrow> FString"
  ToVectorScalar :: "FScalar \<Rightarrow> FScalar"
  GetNumberField :: "FJsonObject \<Rightarrow> FString \<Rightarrow> FScalar"

text \<open>
  The conversions of \<open>FString::Printf\<close> that the bridges use besides \<open>%s\<close>: \<open>%d\<close> and
  \<open>%lld\<close> print a signed integer in decimal, \<open>%f\<close> and \<open>%.2f\<close> print a finite number
  with six and with two digits after the point.  The exact value of the number is rounded
  to the nearest value with that many digits, a tie to the even last digit, and a
  negative number keeps its sign even when it rounds to zero, as C's \<open>printf\<close> prints
  floating-point values.
\<close>

definition digit_char :: "nat \<Rightarrow> char" where
  "digit_char d = ''0123456789'' ! d"

function Printf_u :: "nat \<Rightarrow> FString" where
  "Printf_u n = (if n < 10 then [digit_char n] else Printf_u (n div 10) @ [digit_char (n mod 10)])"
  by pat_completeness auto
termination
  by (relation "measure id") auto

declare Printf_u.simps [simp del]

definition Printf_d :: "int \<Rightarrow> FString" where
  "Printf_d i = (if i < 0 then ''-'' @ Printf_u (nat (- i)) else Printf_u (nat i))"

text \<open>\<open>ZeroPad p s\<close> fills \<open>s\<close> with leading zeros up to \<open>p\<close> characters.\<close>

definition ZeroPad :: "nat \<Rightarrow> FString \<Rightarrow> FString" where
  "ZeroPad p s = replicate (p - length s) CHR ''0'' @ s"

definition Printf_f :: "nat \<Rightarrow> real \<Rightarrow> FString" where
  "Printf_f p x =
     (let n = nat (RoundHalfEven (\<bar>x\<bar> * 10 ^ p))
      in (if x < 0 then ''-'' else [])
         @ Printf_u (n div 10 ^ p)
         @ (if p = 0 then [] else ''.'' @ ZeroPad p (Printf_u (n mod 10 ^ p))))"

section \<open>The Steam AI bridge (packages/ai/examples/unreal/Bridge.h, Bridge.cpp)\<close>

subsection \<open>Data\<close>

record FSteamAIConfig =
  bEnableDebugLogging :: bool
  JavaScriptFilePath :: FString
  bUseV8Engine :: bool
  GarbageCollectionInterval :: real
  MaxMemoryUsageMB :: "32 word"
  bEnablePerformanceMonitoring :: bool

record FSteamAIPerformanceStats =
  ScriptExecutionTimeMs :: real
  TreeExecutionTimeMs :: real
  ActiveAgents :: "32 word"
  ActiveTrees :: "32 word"
  MemoryUsageMB :: real
  ScriptCallsPerSecond :: "32 word"

text \<open>
  \<open>FActionDelegate\<close> and \<open>FConditionDelegate\<close> are declared with the same signature: two
  strings in, a \<open>bool\<close> out.  A delegate is either unbound or bound to a function.
\<close>

datatype FActionDelegate = Unbound | BoundTo "FString \<Rightarrow> FString \<Rightarrow> bool"

type_synonym FConditionDelegate = FActionDelegate



text \<open>
  What the bridge sends out besides its return values: lines of the \<open>LogSteamAI\<close> log
  category and broadcasts of its multicast delegates, in the order they happen.
\<close>

datatype FSteamAIOutput =
  UE_LOG ELogVerbosity FString
| OnAIInitialized_Broadcast bool
| OnAIError_Broadcast FString
| OnTreeExecuted_Broadcast FString FString

text \<open>
  The fields of \<open>USteamAIBridge\<close>.  \<open>V8ContextValid\<close> stands for \<open>V8Context.IsValid()\<close>.
  \<open>Output\<close> collects the log lines and broadcasts.  \<open>ClockReads\<close> counts the calls of
  \<open>FDateTime::Now()\<close> made so far; the host supplies the value of each reading.
\<close>

record USteamAIBridge =
  Config :: FSteamAIConfig
  bIsInitialized :: bool
  bInitializationInProgress :: bool
  V8ContextValid :: bool
  RegisteredActions :: "FActionDelegate TMap TMap"
  RegisteredConditions :: "FConditionDelegate TMap TMap"
  PerformanceStats :: FSteamAIPerformanceStats
  LastGCTime :: real
  LastStatsUpdateTime :: real
  ScriptCallsThisSecond :: "32 word"
  Output :: "FSteamAIOutput list"
  ClockReads :: nat

subsection \<open>Logging and time\<close>

definition STEAM_AI_LOG :: "FString \<Rightarrow> USteamAIBridge \<Rightarrow> USteamAIBridge" where
  "STEAM_AI_LOG Message b = b\<lparr>Output := Output b @ [UE_LOG Log Message]\<rparr>"

definition STEAM_AI_WARN :: "FString \<Rightarrow> USteamAIBridge \<Rightarrow> USteamAIBridge" where
  "STEAM_AI_WARN Message b = b\<lparr>Output := Output b @ [UE_LOG Warning Message]\<rparr>"

definition STEAM_AI_ERROR :: "FString \<Rightarrow> USteamAIBridge \<Rightarrow> USteamAIBridge" where
  "STEAM_AI_ERROR Message b = b\<lparr>Output := Output b @ [UE_LOG Error Message]\<rparr>"

text \<open>
  \<open>ETimespan::TicksPerMillisecond\<close> is 10000; the division is the integer one of C++,
  which truncates, and its quotient is converted to the \<open>double\<close> that the function
  returns.
\<close>

definition TruncatedQuotient :: "int \<Rightarrow> int \<Rightarrow> int" where
  "TruncatedQuotient i j = (if (i < 0) = (j < 0) then \<bar>i\<bar> div \<bar>j\<bar> else - (\<bar>i\<bar> div \<bar>j\<bar>))"

definition GetCurrentTimeMilliseconds :: "FHost \<Rightarrow> USteamAIBridge \<Rightarrow> real \<times> USteamAIBridge" where
  "GetCurrentTimeMilliseconds h b =
     (ToDouble (real_of_int (TruncatedQuotient (NowTicks h (ClockReads b)) 10000)),
      b\<lparr>ClockReads := Suc (ClockReads b)\<rparr>)"

subsection \<open>Script execution\<close>

definition InitializeV8Engine :: "USteamAIBridge \<Rightarrow> bool \<times> USteamAIBridge" where
  "InitializeV8Engine b = (False, STEAM_AI_LOG ''V8 engine initialization not fully implemented'' b)"

definition ExecuteV8Script :: "FString \<Rightarrow> USteamAIBridge \<Rightarrow> bool \<times> USteamAIBridge" where
  "ExecuteV8Script Script b = (False, b)"

definition ExecuteV8Function :: "FString \<Rightarrow> FString list \<Rightarrow> USteamAIBridge \<Rightarrow> FString \<times> USteamAIBridge" where
  "ExecuteV8Function FunctionName Parameters b = ([], b)"

definition InitializeFallbackEngine :: "USteamAIBridge \<Rightarrow> bool \<times> USteamAIBridge" where
  "InitializeFallbackEngine b =
     (True, STEAM_AI_LOG ''Using fallback JavaScript engine (limited functionality)'' b)"

definition ExecuteFallbackScript :: "FString \<Rightarrow> USteamAIBridge \<Rightarrow> bool \<times> USteamAIBridge" where
  "ExecuteFallbackScript Script b =
     (True, if bEnableDebugLogging (Config b)
            then STEAM_AI_LOG (''Fallback script execution: '' @ take 100 Script) b else b)"

definition ExecuteFallbackFunction :: "FString \<Rightarrow> FString list \<Rightarrow> USteamAIBridge \<Rightarrow> FString \<times> USteamAIBridge" where
  "ExecuteFallbackFunction FunctionName Parameters b =
     ([], if bEnableDebugLogging (Config b)
          then STEAM_AI_LOG (''Fallback function execution: '' @ FunctionName) b else b)"

text \<open>
  The block that both branches of \<open>ExecuteScript\<close> and of \<open>ExecuteFunction\<close> run after the
  engine call: with performance monitoring on, the clock is read again, the elapsed time
  (a difference of two \<open>double\<close>s) is stored in a \<open>float\<close> and the call counter (an
  \<open>int32\<close>) is incremented.
\<close>

definition RecordScriptCall :: "FHost \<Rightarrow> real \<Rightarrow> USteamAIBridge \<Rightarrow> USteamAIBridge" where
  "RecordScriptCall h StartTime b =
     (if bEnablePerformanceMonitoring (Config b)
      then (let (EndTime, b1) = GetCurrentTimeMilliseconds h b
            in b1\<lparr>PerformanceStats := (PerformanceStats b1)
                       \<lparr>ScriptExecutionTimeMs := ToFloat (ToDouble (EndTime - StartTime))\<rparr>,
                  ScriptCallsThisSecond := ScriptCallsThisSecond b1 + 1\<rparr>)
      else b)"

definition ExecuteScript :: "FHost \<Rightarrow> FString \<Rightarrow> USteamAIBridge \<Rightarrow> bool \<times> USteamAIBridge" where
  "ExecuteScript h Script b =
     (if \<not> bIsInitialized b
      then (False, STEAM_AI_ERROR ''Attempting to execute script on uninitialized bridge'' b)
      else (let (StartTime, b1) = GetCurrentTimeMilliseconds h b
            in if WITH_V8 h \<and> bUseV8Engine (Config b1) \<and> V8ContextValid b1
               then (let (bResult, b2) = ExecuteV8Script Script b1
                     in (bResult, RecordScriptCall h StartTime b2))
               else (let (bResult, b2) = ExecuteFallbackScript Script b1
                     in (bResult, RecordScriptCall h StartTime b2))))"

definition ExecuteFunction :: "FHost \<Rightarrow> FString \<Rightarrow> FString list \<Rightarrow> USteamAIBridge \<Rightarrow> FString \<times> USteamAIBridge" where
  "ExecuteFunction h FunctionName Parameters b =
     (if \<not> bIsInitialized b
      then ([], STEAM_AI_ERROR ''Attempting to execute function on uninitialized bridge'' b)
      else (let (StartTime, b1) = GetCurrentTimeMilliseconds h b
            in if WITH_V8 h \<and> bUseV8Engine (Config b1) \<and> V8ContextValid b1
               then (let (Result, b2) = ExecuteV8Function FunctionName Parameters b1
                     in (Result, RecordScriptCall h StartTime b2))
               else (let (Result, b2) = ExecuteFallbackFunction FunctionName Parameters b1
                     in (Result, RecordScriptCall h StartTime b2))))"

subsection \<open>Initialization and package loading\<close>

definition SetupJavaScriptEnvironment :: "FHost \<Rightarrow> USteamAIBridge \<Rightarrow> USteamAIBridge" where
  "SetupJavaScriptEnvironment h b =
     (if WITH_V8 h \<and> bUseV8Engine (Config b)
      then (let (ok, b1) = InitializeV8Engine b
            in if \<not> ok
               then snd (InitializeFallbackEngine
                           (STEAM_AI_WARN ''V8 engine initialization failed, falling back to alternative'' b1))
               else b1)
      else snd (InitializeFallbackEngine b))"

text \<open>The module shim that \<open>LoadSteamAIPackage\<close> formats around the package code.\<close>

definition WrappedCode :: "FString \<Rightarrow> FString" where
  \<open>WrappedCode JavaScriptCode =
   concat
     [''\<newline>'',
      ''        (function() {\<newline>'',
      ''            // Module system\<newline>'',
      ''            var module = { exports: {} };\<newline>'',
      ''            var exports = module.exports;\<newline>'',
      ''            var global = this;\<newline>'',
      ''            var window = global;\<newline>'',
      ''\<newline>'',
      ''            // Steam AI Package Code\<newline>'',
      ''            '',
      JavaScriptCode,
      ''\<newline>'',
      ''\<newline>'',
      ''            // Export to global scope\<newline>'',
      ''            if (typeof module !== 'undefined' && module.exports) {\<newline>'',
      ''                window.SteamAI = module.exports;\<newline>'',
      ''            }\<newline>'',
      ''\<newline>'',
      ''            console.log('Steam AI package loaded successfully');\<newline>'',
      ''        }).call(this);\<newline>'',
      ''    '']\<close>

text \<open>The loop over the alternative paths: the first one that loads wins.\<close>

fun LoadAlternative :: "FHost \<Rightarrow> FString list \<Rightarrow> (FString \<times> FString) option" where
  "LoadAlternative h [] = None"
| "LoadAlternative h (AltPath # AlternativePaths) =
     (case LoadFileToString h AltPath of
        Some JavaScriptCode \<Rightarrow> Some (JavaScriptCode, AltPath)
      | None \<Rightarrow> LoadAlternative h AlternativePaths)"

definition AlternativePaths :: "FHost \<Rightarrow> FString list" where
  "AlternativePaths h =
     [ProjectContentDir h @ ''JavaScript/steam-ai.js'',
      ProjectContentDir h @ ''Scripts/steam-ai.js'',
      ProjectDir h @ ''steam-ai.js'']"

definition LoadSteamAIPackage :: "FHost \<Rightarrow> USteamAIBridge \<Rightarrow> bool \<times> USteamAIBridge" where
  "LoadSteamAIPackage h b =
     (let FilePath = ProjectContentDir h @ JavaScriptFilePath (Config b)
      in case LoadFileToString h FilePath of
           Some JavaScriptCode \<Rightarrow> ExecuteScript h (WrappedCode JavaScriptCode) b
         | None \<Rightarrow>
             (case LoadAlternative h (AlternativePaths h) of
                None \<Rightarrow> (False, STEAM_AI_ERROR (''Steam AI package file not found at: '' @ FilePath) b)
              | Some (JavaScriptCode, AltPath) \<Rightarrow> ExecuteScript h (WrappedCode JavaScriptCode) b))"

definition BindingScript :: FString where
  \<open>BindingScript =
   concat
     [''\<newline>'',
      ''        // Unreal Engine specific bindings\<newline>'',
      ''        window.Unreal = {\<newline>'',
      ''            log: function(message) {\<newline>'',
      ''                window.UnrealCallbacks.Log(String(message));\<newline>'',
      ''            },\<newline>'',
      ''            warn: function(message) {\<newline>'',
      ''                window.UnrealCallbacks.Warn(String(message));\<newline>'',
      ''            },\<newline>'',
      ''            error: function(message) {\<newline>'',
      ''                window.UnrealCallbacks.Error(String(message));\<newline>'',
      ''            },\<newline>'',
      ''            getTime: function() {\<newline>'',
      ''                return window.UnrealCallbacks.GetTime();\<newline>'',
      ''            },\<newline>'',
      ''            getDeltaTime: function() {\<newline>'',
      ''                return window.UnrealCallbacks.GetDeltaTime();\<newline>'',
      ''            },\<newline>'',
      ''            createVector3: function(x, y, z) {\<newline>'',
      ''                return JSON.parse(window.UnrealCallbacks.CreateVector3(x || 0, y || 0, z || 0));\<newline>'',
      ''            },\<newline>'',
      ''            calculateDistance: function(a, b) {\<newline>'',
      ''                return window.UnrealCallbacks.CalculateDistance(JSON.stringify(a), JSON.stringify(b));\<newline>'',
      ''            }\<newline>'',
      ''        };\<newline>'',
      ''\<newline>'',
      ''        // Console compatibility\<newline>'',
      ''        if (typeof console === 'undefined') {\<newline>'',
      ''            window.console = {\<newline>'',
      ''                log: window.Unreal.log,\<newline>'',
      ''                warn: window.Unreal.warn,\<newline>'',
      ''                error: window.Unreal.error\<newline>'',
      ''            };\<newline>'',
      ''        }\<newline>'',
      ''\<newline>'',
      ''        // Callback system for actions and conditions\<newline>'',
      ''        window.UnrealCallAction = function(agentId, actionName, agent, blackboard) {\<newline>'',
      ''            try {\<newline>'',
      ''                return window.UnrealCallbacks.CallAction(agentId, actionName, JSON.stringify(agent), JSON.stringify(blackboard));\<newline>'',
      ''            } catch (e) {\<newline>'',
      ''                console.error('Action callback error:', e.message);\<newline>'',
      ''                return false;\<newline>'',
      ''            }\<newline>'',
      ''        };\<newline>'',
      ''\<newline>'',
      ''        window.UnrealCallCondition = function(agentId, conditionName, agent, blackboard) {\<newline>'',
      ''            try {\<newline>'',
      ''                return window.UnrealCallbacks.CallCondition(agentId, conditionName, JSON.stringify(agent), JSON.stringify(blackboard));\<newline>'',
      ''            } catch (e) {\<newline>'',
      ''                console.error('Condition callback error:', e.message);\<newline>'',
      ''                return false;\<newline>'',
      ''            }\<newline>'',
      ''        };\<newline>'',
      ''\<newline>'',
      ''        // Initialize Steam AI components\<newline>'',
      ''        if (typeof window.SteamAI !== 'undefined') {\<newline>'',
      ''            const { AgentManager, BehaviorTreeEngine, StateMachineEngine } = window.SteamAI;\<newline>'',
      ''\<newline>'',
      ''            window.agentManager = new AgentManager();\<newline>'',
      ''            window.behaviorTreeEngine = new BehaviorTreeEngine();\<newline>'',
      ''            window.stateMachineEngine = new StateMachineEngine();\<newline>'',
      ''\<newline>'',
      ''            // Global storage\<newline>'',
      ''            window.agents = {};\<newline>'',
      ''            window.behaviorTrees = {};\<newline>'',
      ''            window.stateMachines = {};\<newline>'',
      ''\<newline>'',
      ''            console.log('Steam AI components initialized');\<newline>'',
      ''        } else {\<newline>'',
      ''            console.error('Steam AI package not found');\<newline>'',
      ''        }\<newline>'',
      ''    '']\<close>

definition SetupUnrealBindings :: "FHost \<Rightarrow> USteamAIBridge \<Rightarrow> USteamAIBridge" where
  "SetupUnrealBindings h b = snd (ExecuteScript h BindingScript b)"

text \<open>
  \<open>InitializeAI\<close>.  None of the modelled calls throws, so the \<open>catch\<close> block of the source
  has no counterpart here.
\<close>

definition InitializeAI :: "FHost \<Rightarrow> USteamAIBridge \<Rightarrow> bool \<times> USteamAIBridge" where
  "InitializeAI h b =
     (if bIsInitialized b \<or> bInitializationInProgress b then (bIsInitialized b, b)
      else (let b1 = b\<lparr>bInitializationInProgress := True\<rparr>;
                b2 = STEAM_AI_LOG ''Initializing Steam AI Bridge...'' b1;
                b3 = SetupJavaScriptEnvironment h b2;
                (loaded, b4) = LoadSteamAIPackage h b3
            in if \<not> loaded
               then (let b5 = STEAM_AI_ERROR ''Failed to load Steam AI package'' b4;
                         b6 = b5\<lparr>bInitializationInProgress := False\<rparr>
                     in (False, b6\<lparr>Output := Output b6 @ [OnAIInitialized_Broadcast False]\<rparr>))
               else (let b5 = SetupUnrealBindings h b4;
                         b6 = b5\<lparr>bIsInitialized := True, bInitializationInProgress := False\<rparr>;
                         b7 = STEAM_AI_LOG ''Steam AI Bridge initialized successfully'' b6
                     in (True, b7\<lparr>Output := Output b7 @ [OnAIInitialized_Broadcast True]\<rparr>))))"

subsection \<open>Agents, trees and memory\<close>

definition CreateAgent_Script :: "FString \<Rightarrow> FString \<Rightarrow> FString" where
  \<open>CreateAgent_Script AgentId AgentConfig =
   concat
     [''\<newline>'',
      ''        if (window.agentManager) {\<newline>'',
      ''            try {\<newline>'',
      ''                const config = '',
      AgentConfig,
      '';\<newline>'',
      ''                const agent = window.agentManager.createAgent('',
      apostrophe,
      AgentId,
      ''', config);\<newline>'',
      ''                window.agents['',
      apostrophe,
      AgentId,
      '''] = agent;\<newline>'',
      ''                true;\<newline>'',
      ''            } catch (e) {\<newline>'',
      ''                console.error('Failed to create agent:', e.message);\<newline>'',
      ''                false;\<newline>'',
      ''            }\<newline>'',
      ''        } else {\<newline>'',
      ''            console.error('Agent manager not initialized');\<newline>'',
      ''            false;\<newline>'',
      ''        }\<newline>'',
      ''    '']\<close>

definition CreateAgent :: "FHost \<Rightarrow> FString \<Rightarrow> FString \<Rightarrow> USteamAIBridge \<Rightarrow> bool \<times> USteamAIBridge" where
  "CreateAgent h AgentId AgentConfig b =
     (let Script = CreateAgent_Script AgentId AgentConfig;
          (Result, b1) = ExecuteFunction h (''(function() { return '' @ Script @ '' })'') [] b
      in (Contains Result ''true'', b1))"

definition CreateBehaviorTree_Script :: "FString \<Rightarrow> FString \<Rightarrow> FString" where
  \<open>CreateBehaviorTree_Script TreeId TreeConfig =
   concat
     [''\<newline>'',
      ''        if (window.behaviorTreeEngine) {\<newline>'',
      ''            try {\<newline>'',
      ''                const config = '',
      TreeConfig,
      '';\<newline>'',
      ''                window.behaviorTreeEngine.createTree('',
      apostrophe,
      TreeId,
      ''', config);\<newline>'',
      ''                window.behaviorTrees['',
      apostrophe,
      TreeId,
      '''] = config;\<newline>'',
      ''                true;\<newline>'',
      ''            } catch (e) {\<newline>'',
      ''                console.error('Failed to create behavior tree:', e.message);\<newline>'',
      ''                false;\<newline>'',
      ''            }\<newline>'',
      ''        } else {\<newline>'',
      ''            console.error('Behavior tree engine not initialized');\<newline>'',
      ''            false;\<newline>'',
      ''        }\<newline>'',
      ''    '']\<close>

definition CreateBehaviorTree :: "FHost \<Rightarrow> FString \<Rightarrow> FString \<Rightarrow> USteamAIBridge \<Rightarrow> bool \<times> USteamAIBridge" where
  "CreateBehaviorTree h TreeId TreeConfig b =
     (let Script = CreateBehaviorTree_Script TreeId TreeConfig;
          (Result, b1) = ExecuteFunction h (''(function() { return '' @ Script @ '' })'') [] b
      in (Contains Result ''true'', b1))"

definition ExecuteBehaviorTree_Script :: "FString \<Rightarrow> FString \<Rightarrow> FString" where
  \<open>ExecuteBehaviorTree_Script TreeId AgentId =
   concat
     [''\<newline>'',
      ''        if (window.behaviorTreeEngine && window.agents['',
      apostrophe,
      AgentId,
      ''']) {\<newline>'',
      ''            try {\<newline>'',
      ''                const status = window.behaviorTreeEngine.executeTree('',
      apostrophe,
      TreeId,
      ''', window.agents['',
      apostrophe,
      AgentId,
      ''']);\<newline>'',
      ''                String(status);\<newline>'',
      ''            } catch (e) {\<newline>'',
      ''                console.error('Failed to execute behavior tree:', e.message);\<newline>'',
      ''                'FAILURE';\<newline>'',
      ''            }\<newline>'',
      ''        } else {\<newline>'',
      ''            'INVALID';\<newline>'',
      ''        }\<newline>'',
      ''    '']\<close>

definition ExecuteBehaviorTree :: "FHost \<Rightarrow> FString \<Rightarrow> FString \<Rightarrow> USteamAIBridge \<Rightarrow> FString \<times> USteamAIBridge" where
  "ExecuteBehaviorTree h TreeId AgentId b =
     (let (StartTime, b1) = GetCurrentTimeMilliseconds h b;
          Script = ExecuteBehaviorTree_Script TreeId AgentId;
          (Result, b2) = ExecuteFunction h (''(function() { return '' @ Script @ '' })'') [] b1;
          b3 = (if bEnablePerformanceMonitoring (Config b2)
                then (let (EndTime, b') = GetCurrentTimeMilliseconds h b2
                      in b'\<lparr>PerformanceStats := (PerformanceStats b')
                                \<lparr>TreeExecutionTimeMs := ToFloat (ToDouble (EndTime - StartTime))\<rparr>\<rparr>)
                else b2)
      in (Result, b3\<lparr>Output := Output b3 @ [OnTreeExecuted_Broadcast TreeId Result]\<rparr>))"

definition SetAgentMemory_Script :: "FString \<Rightarrow> FString \<Rightarrow> FString \<Rightarrow> FString" where
  \<open>SetAgentMemory_Script AgentId Key Value =
   concat
     [''\<newline>'',
      ''        if (window.agentManager && window.agents['',
      apostrophe,
      AgentId,
      ''']) {\<newline>'',
      ''            try {\<newline>'',
      ''                window.agentManager.updateAgentMemory('',
      apostrophe,
      AgentId,
      ''', '',
      apostrophe,
      Key,
      ''', '',
      Value,
      '');\<newline>'',
      ''                true;\<newline>'',
      ''            } catch (e) {\<newline>'',
      ''                console.error('Failed to set agent memory:', e.message);\<newline>'',
      ''                false;\<newline>'',
      ''            }\<newline>'',
      ''        } else {\<newline>'',
      ''            false;\<newline>'',
      ''        }\<newline>'',
      ''    '']\<close>

definition SetAgentMemory :: "FHost \<Rightarrow> FString \<Rightarrow> FString \<Rightarrow> FString \<Rightarrow> USteamAIBridge \<Rightarrow> bool \<times> USteamAIBridge" where
  "SetAgentMemory h AgentId Key Value b =
     (let Script = SetAgentMemory_Script AgentId Key Value;
          (Result, b1) = ExecuteFunction h (''(function() { return '' @ Script @ '' })'') [] b
      in (Contains Result ''true'', b1))"

subsection \<open>Vectors as JSON\<close>






subsection \<open>Garbage collection and the component tick\<close>


text \<open>
  \<open>StatsUpdateInterval\<close> is the function's static constant \<open>1.0f\<close>; the sum is a
  \<open>float\<close> addition.
\<close>

definition UpdatePerformanceStats :: "real \<Rightarrow> USteamAIBridge \<Rightarrow> USteamAIBridge" where
  "UpdatePerformanceStats DeltaTime b =
     (if \<not> bEnablePerformanceMonitoring (Config b) then b
      else (let b1 = b\<lparr>LastStatsUpdateTime := ToFloat (LastStatsUpdateTime b + DeltaTime)\<rparr>
            in if LastStatsUpdateTime b1 \<ge> 1
               then b1\<lparr>PerformanceStats := (PerformanceStats b1)
                          \<lparr>ScriptCallsPerSecond := ScriptCallsThisSecond b1,
                           ActiveAgents := of_nat (TMap_Num (RegisteredActions b1)),
                           ActiveTrees := 0\<rparr>,
                        ScriptCallsThisSecond := 0,
                        LastStatsUpdateTime := 0\<rparr>
               else b1))"



subsection \<open>Callbacks\<close>





definition CleanupFallbackEngine :: "USteamAIBridge \<Rightarrow> USteamAIBridge" where
  "CleanupFallbackEngine b = b"

definition CleanupV8Engine :: "USteamAIBridge \<Rightarrow> USteamAIBridge" where
  "CleanupV8Engine b = b"

definition CleanupJavaScript :: "FHost \<Rightarrow> USteamAIBridge \<Rightarrow> USteamAIBridge" where
  "CleanupJavaScript h b =
     (if \<not> bIsInitialized b then b
      else (let b1 = STEAM_AI_LOG ''Cleaning up Steam AI Bridge...'' b;
                b2 = b1\<lparr>RegisteredActions := [], RegisteredConditions := []\<rparr>;
                b3 = (if WITH_V8 h \<and> bUseV8Engine (Config b2) then CleanupV8Engine b2
                      else CleanupFallbackEngine b2)
            in STEAM_AI_LOG ''Steam AI Bridge cleanup complete'' (b3\<lparr>bIsInitialized := False\<rparr>)))"

section \<open>The data visualization bridge (packages/data-visualization/examples/unreal/Bridge.h, Bridge.cpp)\<close>

subsection \<open>Data\<close>

record FBatchUpdateData =
  ChartId :: FString
  Method :: FString
  Data :: FString
  Timestamp :: real

text \<open>
  The fields of \<open>UDataVisualizationBridge\<close>.  \<open>JavaScriptEngine\<close> tells whether the engine
  pointer is valid.  \<open>JavaScriptContext\<close> is \<open>None\<close> for an invalid context pointer and
  otherwise holds the scripts that the context has run so far, oldest first.
  \<open>Output_viz\<close> collects the lines logged to \<open>LogDataVisualization\<close>.
\<close>

record UDataVisualizationBridge =
  bEnableDebugMode :: bool
  PackagePath :: FString
  MemoryLimit :: "32 word"
  bAutoCleanup :: bool
  bEnableBatchUpdates :: bool
  BatchInterval :: real
  MaxDataPointsPerChart :: "32 word"
  bIsInitialized_viz :: bool
  Charts :: "FJsonObject option TMap"
  Dashboards :: "FJsonObject option TMap"
  PendingUpdates :: "FBatchUpdateData list"
  LastBatchTime :: real
  PerformanceStats_viz :: "FJsonObject option"
  JavaScriptEngine :: bool
  JavaScriptContext :: "FString list option"
  Output_viz :: "(ELogVerbosity \<times> FString) list"

definition UE_LOG_viz :: "ELogVerbosity \<Rightarrow> FString \<Rightarrow> UDataVisualizationBridge \<Rightarrow> UDataVisualizationBridge" where
  "UE_LOG_viz Verbosity Message b = b\<lparr>Output_viz := Output_viz b @ [(Verbosity, Message)]\<rparr>"

text \<open>
  The state that the constructor leaves.  The batch interval is the \<open>float\<close> literal
  \<open>0.1f\<close>, which denotes 13421773 / 2^27.
\<close>

definition UDataVisualizationBridge_new :: UDataVisualizationBridge where
  "UDataVisualizationBridge_new =
     \<lparr>bEnableDebugMode = False,
      PackagePath = ''Content/JavaScript/node_modules/@steamproject/data-visualization'',
      MemoryLimit = 50 * 1024 * 1024,
      bAutoCleanup = True,
      bEnableBatchUpdates = True,
      BatchInterval = 13421773 / 134217728,
      MaxDataPointsPerChart = 1000,
      bIsInitialized_viz = False,
      Charts = [],
      Dashboards = [],
      PendingUpdates = [],
      LastBatchTime = 0,
      PerformanceStats_viz = Some [],
      JavaScriptEngine = False,
      JavaScriptContext = None,
      Output_viz = []\<rparr>"

subsection \<open>Helpers\<close>

definition JsonObjectToString :: "FHost \<Rightarrow> FJsonObject option \<Rightarrow> FString" where
  "JsonObjectToString h JsonObject' =
     (case JsonObject' of None \<Rightarrow> ''{}'' | Some obj \<Rightarrow> Serialize h obj)"

definition JsonValueArrayToString :: "FHost \<Rightarrow> FJsonValue option list \<Rightarrow> FString" where
  "JsonValueArrayToString h JsonArray' = SerializeArray h JsonArray'"

text \<open>
  \<open>FString\<close>'s operator \<open>/\<close> joins two path parts with exactly one separator between
  them.
\<close>

definition PathAppend :: "FString \<Rightarrow> FString \<Rightarrow> FString" where
  "PathAppend a c =
     (if a \<noteq> [] \<and> last a \<noteq> CHR ''/'' \<and> (c = [] \<or> hd c \<noteq> CHR ''/'') then a @ ''/'' @ c else a @ c)"

subsection \<open>Running scripts\<close>

definition ExecuteJavaScript :: "FHost \<Rightarrow> FString \<Rightarrow> UDataVisualizationBridge \<Rightarrow> FString \<times> UDataVisualizationBridge" where
  "ExecuteJavaScript h Script b =
     (if WITH_V8 h
      then (case JavaScriptContext b of
              None \<Rightarrow> (''ERROR: JavaScript context not available'', b)
            | Some history \<Rightarrow>
                (let b1 = b\<lparr>JavaScriptContext := Some (history @ [Script])\<rparr>
                 in case V8_ExecuteScript h history Script of
                      Inr (V8String s) \<Rightarrow> (s, b1)
                    | Inr V8Undefined \<Rightarrow> (''SUCCESS'', b1)
                    | Inr V8Null \<Rightarrow> (''SUCCESS'', b1)
                    | Inr (V8Other s) \<Rightarrow> (''SUCCESS: '' @ s, b1)
                    | Inl what \<Rightarrow> (''ERROR: '' @ what, b1)))
      else (''ERROR: V8 not available'', b))"

subsection \<open>Initialization\<close>

definition UtilityScript :: FString where
  \<open>UtilityScript =
   concat
     [''\<newline>'',
      ''            global.console = {\<newline>'',
      ''                log: function(msg) { Unreal.Log(msg); },\<newline>'',
      ''                warn: function(msg) { Unreal.LogWarning(msg); },\<newline>'',
      ''                error: function(msg) { Unreal.LogError(msg); }\<newline>'',
      ''            };\<newline>'',
      ''\<newline>'',
      ''            global.setTimeout = function(callback, delay) {\<newline>'',
      ''                Unreal.SetTimeout(callback.toString(), delay);\<newline>'',
      ''            };\<newline>'',
      ''\<newline>'',
      ''            global.setInterval = function(callback, interval) {\<newline>'',
      ''                return Unreal.SetInterval(callback.toString(), interval);\<newline>'',
      ''            };\<newline>'',
      ''\<newline>'',
      ''            global.Date = {\<newline>'',
      ''                now: function() { return Unreal.GetUnixTimestamp(); }\<newline>'',
      ''            };\<newline>'',
      ''        '']\<close>

text \<open>
  \<open>InitializeJavaScriptEngine\<close>.  A pointer made by \<open>MakeShareable(new FV8Engine())\<close> is
  valid.  The three \<open>SetGlobalObject\<close> calls prepare the fresh context and are not part of
  its script history.
\<close>

definition InitializeJavaScriptEngine :: "FHost \<Rightarrow> UDataVisualizationBridge \<Rightarrow> bool \<times> UDataVisualizationBridge" where
  "InitializeJavaScriptEngine h b =
     (if WITH_V8 h
      then (let b1 = b\<lparr>JavaScriptEngine := True\<rparr>
            in if \<not> JavaScriptEngine b1
               then (False, UE_LOG_viz Error ''Failed to create V8 engine'' b1)
               else if \<not> V8_EngineInitialize h
               then (False, UE_LOG_viz Error ''Failed to initialize V8 engine'' b1)
               else (let b2 = b1\<lparr>JavaScriptContext := (if V8_CreateContext h then Some [] else None)\<rparr>
                     in case JavaScriptContext b2 of
                          None \<Rightarrow> (False, UE_LOG_viz Error ''Failed to create V8 context'' b2)
                        | Some history \<Rightarrow>
                            (let b3 = b2\<lparr>JavaScriptContext := Some (history @ [UtilityScript])\<rparr>
                             in case V8_ExecuteScript h history UtilityScript of
                                  Inl what \<Rightarrow>
                                    (False, UE_LOG_viz Error (''Exception during V8 initialization: '' @ what) b3)
                                | Inr v \<Rightarrow>
                                    (True, UE_LOG_viz Log ''V8 JavaScript engine initialized successfully'' b3))))
      else (False, UE_LOG_viz Error ''V8 JavaScript engine not available. Please enable V8 plugin.'' b))"

definition InitScript :: "UDataVisualizationBridge \<Rightarrow> FString" where
  \<open>InitScript b =
   concat
     [''\<newline>'',
      ''        if (typeof DataVisualizationManager === 'undefined') {\<newline>'',
      ''            throw new Error('DataVisualizationManager not found in package');\<newline>'',
      ''        }\<newline>'',
      ''\<newline>'',
      ''        global.vizManager = new DataVisualizationManager({\<newline>'',
      ''            debug: '',
      (if bEnableDebugMode b then ''true'' else ''false''),
      '',\<newline>'',
      ''            autoCleanup: '',
      (if bAutoCleanup b then ''true'' else ''false''),
      '',\<newline>'',
      ''            memoryLimit: '',
      Printf_d (sint (MemoryLimit b)),
      '',\<newline>'',
      ''            maxDataPointsPerChart: '',
      Printf_d (sint (MaxDataPointsPerChart b)),
      '',\<newline>'',
      ''            platform: 'unreal'\<newline>'',
      ''        });\<newline>'',
      ''\<newline>'',
      ''        // Set up event handlers\<newline>'',
      ''        global.vizManager.on('thresholdCrossed', function(data) {\<newline>'',
      ''            Unreal.OnThresholdCrossed(data.chartId, JSON.stringify(data));\<newline>'',
      ''        });\<newline>'',
      ''\<newline>'',
      ''        global.vizManager.on('dataPointAdded', function(data) {\<newline>'',
      ''            Unreal.OnDataPointAdded(data.chartId, JSON.stringify(data));\<newline>'',
      ''        });\<newline>'',
      ''\<newline>'',
      ''        global.vizManager.on('error', function(error) {\<newline>'',
      ''            Unreal.OnChartError(error.chartId, error.message);\<newline>'',
      ''        });\<newline>'',
      ''\<newline>'',
      ''        console.log('Data Visualization Manager initialized for Unreal Engine');\<newline>'',
      ''    '']\<close>

definition LoadDataVisualizationPackage :: "FHost \<Rightarrow> UDataVisualizationBridge \<Rightarrow> bool \<times> UDataVisualizationBridge" where
  "LoadDataVisualizationPackage h b =
     (let PackageFullPath = PathAppend (ProjectContentDir h)
                              ''JavaScript/node_modules/@steamproject/data-visualization'';
          MainFile = PathAppend PackageFullPath ''dist/index.js''
      in if \<not> FileExists h MainFile
         then (False,
               UE_LOG_viz Error
                 (''Please run '' @ apostrophe @ ''npm install @steamproject/data-visualization''
                  @ apostrophe @ '' in Content/JavaScript/'')
                 (UE_LOG_viz Error (''Data visualization package not found at: '' @ MainFile) b))
         else (case LoadFileToString h MainFile of
                 None \<Rightarrow> (False, UE_LOG_viz Error (''Failed to load package file: '' @ MainFile) b)
               | Some PackageCode \<Rightarrow>
                   (let (Result, b1) = ExecuteJavaScript h PackageCode b
                    in if Contains Result ''ERROR''
                       then (False, UE_LOG_viz Error (''Error executing package code: '' @ Result) b1)
                       else (let (Result2, b2) = ExecuteJavaScript h (InitScript b1) b1
                             in if Contains Result2 ''ERROR''
                                then (False,
                                      UE_LOG_viz Error
                                        (''Error initializing visualization manager: '' @ Result2) b2)
                                else (True,
                                      UE_LOG_viz Log ''Data visualization package loaded successfully'' b2)))))"

definition SetupEventHandlers :: "UDataVisualizationBridge \<Rightarrow> UDataVisualizationBridge" where
  "SetupEventHandlers b = b"

definition Initialize :: "FHost \<Rightarrow> UDataVisualizationBridge \<Rightarrow> bool \<times> UDataVisualizationBridge" where
  "Initialize h b =
     (if bIsInitialized_viz b then (True, b)
      else (let b1 = UE_LOG_viz Log ''Initializing Data Visualization Bridge...'' b;
                (engineOk, b2) = InitializeJavaScriptEngine h b1
            in if \<not> engineOk
               then (False, UE_LOG_viz Error ''Failed to initialize JavaScript engine'' b2)
               else (let (packageOk, b3) = LoadDataVisualizationPackage h b2
                     in if \<not> packageOk
                        then (False, UE_LOG_viz Error ''Failed to load data visualization package'' b3)
                        else (let b4 = SetupEventHandlers b3;
                                  b5 = b4\<lparr>bIsInitialized_viz := True\<rparr>
                              in (True,
                                  UE_LOG_viz Log ''Data Visualization Bridge initialized successfully'' b5)))))"

subsection \<open>Chart creation\<close>

definition CreateLineChart ::
  "FHost \<Rightarrow> FString \<Rightarrow> FJsonObject option \<Rightarrow> UDataVisualizationBridge \<Rightarrow> UDataVisualizationBridge" where
  "CreateLineChart h ChartId' Config' b =
     (if \<not> bIsInitialized_viz b then b
      else (let ConfigJson = JsonObjectToString h Config';
                Script = ''global.vizManager.createLineChart('' @ apostrophe @ ChartId' @ ''', '' @ ConfigJson @ '');'';
                (Result, b1) = ExecuteJavaScript h Script b
            in if \<not> Contains Result ''ERROR''
               then UE_LOG_viz Log (''Created line chart: '' @ ChartId') (b1\<lparr>Charts := TMap_Add ChartId' Config' (Charts b1)\<rparr>)
               else UE_LOG_viz Error (''Failed to create line chart '' @ apostrophe @ ChartId' @ ''': '' @ Result) b1))"

definition CreateBarChart ::
  "FHost \<Rightarrow> FString \<Rightarrow> FJsonObject option \<Rightarrow> UDataVisualizationBridge \<Rightarrow> UDataVisualizationBridge" where
  "CreateBarChart h ChartId' Config' b =
     (if \<not> bIsInitialized_viz b then b
      else (let ConfigJson = JsonObjectToString h Config';
                Script = ''global.vizManager.createBarChart('' @ apostrophe @ ChartId' @ ''', '' @ ConfigJson @ '');'';
                (Result, b1) = ExecuteJavaScript h Script b
            in if \<not> Contains Result ''ERROR''
               then UE_LOG_viz Log (''Created bar chart: '' @ ChartId') (b1\<lparr>Charts := TMap_Add ChartId' Config' (Charts b1)\<rparr>)
               else UE_LOG_viz Error (''Failed to create bar chart '' @ apostrophe @ ChartId' @ ''': '' @ Result) b1))"

definition CreatePieChart ::
  "FHost \<Rightarrow> FString \<Rightarrow> FJsonObject option \<Rightarrow> UDataVisualizationBridge \<Rightarrow> UDataVisualizationBridge" where
  "CreatePieChart h ChartId' Config' b =
     (if \<not> bIsInitialized_viz b then b
      else (let ConfigJson = JsonObjectToString h Config';
                Script = ''global.vizManager.createPieChart('' @ apostrophe @ ChartId' @ ''', '' @ ConfigJson @ '');'';
                (Result, b1) = ExecuteJavaScript h Script b
            in if \<not> Contains Result ''ERROR''
               then UE_LOG_viz Log (''Created pie chart: '' @ ChartId') (b1\<lparr>Charts := TMap_Add ChartId' Config' (Charts b1)\<rparr>)
               else UE_LOG_viz Error (''Failed to create pie chart '' @ apostrophe @ ChartId' @ ''': '' @ Result) b1))"

definition CreateHeatmap ::
  "FHost \<Rightarrow> FString \<Rightarrow> FJsonObject option \<Rightarrow> UDataVisualizationBridge \<Rightarrow> UDataVisualizationBridge" where
  "CreateHeatmap h ChartId' Config' b =
     (if \<not> bIsInitialized_viz b then b
      else (let ConfigJson = JsonObjectToString h Config';
                Script = ''global.vizManager.createHeatmap('' @ apostrophe @ ChartId' @ ''', '' @ ConfigJson @ '');'';
                (Result, b1) = ExecuteJavaScript h Script b
            in if \<not> Contains Result ''ERROR''
               then UE_LOG_viz Log (''Created heatmap: '' @ ChartId') (b1\<lparr>Charts := TMap_Add ChartId' Config' (Charts b1)\<rparr>)
               else UE_LOG_viz Error (''Failed to create heatmap '' @ apostrophe @ ChartId' @ ''': '' @ Result) b1))"

definition CreateGauge ::
  "FHost \<Rightarrow> FString \<Rightarrow> FJsonObject option \<Rightarrow> UDataVisualizationBridge \<Rightarrow> UDataVisualizationBridge" where
  "CreateGauge h ChartId' Config' b =
     (if \<not> bIsInitialized_viz b then b
      else (let ConfigJson = JsonObjectToString h Config';
                Script = ''global.vizManager.createGauge('' @ apostrophe @ ChartId' @ ''', '' @ ConfigJson @ '');'';
                (Result, b1) = ExecuteJavaScript h Script b
            in if \<not> Contains Result ''ERROR''
               then UE_LOG_viz Log (''Created gauge: '' @ ChartId') (b1\<lparr>Charts := TMap_Add ChartId' Config' (Charts b1)\<rparr>)
               else UE_LOG_viz Error (''Failed to create gauge '' @ apostrophe @ ChartId' @ ''': '' @ Result) b1))"

definition CreateDashboard ::
  "FHost \<Rightarrow> FString \<Rightarrow> FJsonObject option \<Rightarrow> UDataVisualizationBridge \<Rightarrow> UDataVisualizationBridge" where
  "CreateDashboard h DashboardId' Config' b =
     (if \<not> bIsInitialized_viz b then b
      else (let ConfigJson = JsonObjectToString h Config';
                Script = ''global.vizManager.createDashboard('' @ apostrophe @ DashboardId' @ ''', '' @ ConfigJson @ '');'';
                (Result, b1) = ExecuteJavaScript h Script b
            in if \<not> Contains Result ''ERROR''
               then UE_LOG_viz Log (''Created dashboard: '' @ DashboardId') (b1\<lparr>Dashboards := TMap_Add DashboardId' Config' (Dashboards b1)\<rparr>)
               else UE_LOG_viz Error (''Failed to create dashboard '' @ apostrophe @ DashboardId' @ ''': '' @ Result) b1))"

subsection \<open>Data updates\<close>

definition UpdateChartImmediate ::
  "FHost \<Rightarrow> FString \<Rightarrow> 64 word \<Rightarrow> real \<Rightarrow> UDataVisualizationBridge \<Rightarrow> UDataVisualizationBridge" where
  "UpdateChartImmediate h ChartId' Timestamp' Value b =
     (let Script = ''global.vizManager.updateChart('' @ apostrophe @ ChartId' @ ''', ''
                   @ Printf_d (sint Timestamp') @ '', '' @ Printf_f 6 Value @ '');'';
          (Result, b1) = ExecuteJavaScript h Script b
      in if Contains Result ''ERROR''
         then UE_LOG_viz Error (''Failed to update chart '' @ apostrophe @ ChartId' @ ''': '' @ Result) b1
         else b1)"

definition UpdateChartMultiDataImmediate ::
  "FHost \<Rightarrow> FString \<Rightarrow> FJsonObject option \<Rightarrow> UDataVisualizationBridge \<Rightarrow> UDataVisualizationBridge" where
  "UpdateChartMultiDataImmediate h ChartId' Data' b =
     (let DataJson = JsonObjectToString h Data';
          Script = ''global.vizManager.updateChartMultiData('' @ apostrophe @ ChartId' @ ''', ''
                   @ DataJson @ '');'';
          (Result, b1) = ExecuteJavaScript h Script b
      in if Contains Result ''ERROR''
         then UE_LOG_viz Error
                (''Failed to update chart multi-data '' @ apostrophe @ ChartId' @ ''': '' @ Result) b1
         else b1)"

definition UpdateChartArrayDataImmediate ::
  "FHost \<Rightarrow> FString \<Rightarrow> FJsonValue option list \<Rightarrow> UDataVisualizationBridge \<Rightarrow> UDataVisualizationBridge" where
  "UpdateChartArrayDataImmediate h ChartId' Data' b =
     (let DataJson = JsonValueArrayToString h Data';
          Script = ''global.vizManager.updateChartArrayData('' @ apostrophe @ ChartId' @ ''', ''
                   @ DataJson @ '');'';
          (Result, b1) = ExecuteJavaScript h Script b
      in if Contains Result ''ERROR''
         then UE_LOG_viz Error
                (''Failed to update chart array data '' @ apostrophe @ ChartId' @ ''': '' @ Result) b1
         else b1)"

text \<open>
  The three public update methods.  \<open>Seconds\<close> is the reading of
  \<open>FPlatformTime::Seconds()\<close> that stamps a queued update; the reading is a \<open>double\<close>,
  the field \<open>Timestamp\<close> a \<open>float\<close>.  The value of an update is taken to be a finite
  \<open>float\<close> other than the negative zero.
\<close>

definition UpdateChart ::
  "FHost \<Rightarrow> real \<Rightarrow> FString \<Rightarrow> 64 word \<Rightarrow> real \<Rightarrow> UDataVisualizationBridge \<Rightarrow> UDataVisualizationBridge" where
  \<open>UpdateChart h Seconds ChartId' Timestamp' Value b =
     (if \<not> bIsInitialized_viz b then b
      else if bEnableBatchUpdates b
      then (let Update = \<lparr>ChartId = ChartId',
                          Method = ''updateSingleData'',
                          Data = ''{"timestamp": '' @ Printf_d (sint Timestamp')
                                 @ '', "value": '' @ Printf_f 6 Value @ ''}'',
                          Timestamp = ToFloat Seconds\<rparr>
            in b\<lparr>PendingUpdates := PendingUpdates b @ [Update]\<rparr>)
      else UpdateChartImmediate h ChartId' Timestamp' Value b)\<close>

definition UpdateChartMultiData ::
  "FHost \<Rightarrow> real \<Rightarrow> FString \<Rightarrow> FJsonObject option \<Rightarrow> UDataVisualizationBridge \<Rightarrow> UDataVisualizationBridge" where
  "UpdateChartMultiData h Seconds ChartId' Data' b =
     (if \<not> bIsInitialized_viz b then b
      else if bEnableBatchUpdates b
      then (let Update = \<lparr>ChartId = ChartId',
                          Method = ''updateMultiData'',
                          Data = JsonObjectToString h Data',
                          Timestamp = ToFloat Seconds\<rparr>
            in b\<lparr>PendingUpdates := PendingUpdates b @ [Update]\<rparr>)
      else UpdateChartMultiDataImmediate h ChartId' Data' b)"

definition UpdateChartArray ::
  "FHost \<Rightarrow> real \<Rightarrow> FString \<Rightarrow> FJsonValue option list \<Rightarrow> UDataVisualizationBridge \<Rightarrow> UDataVisualizationBridge" where
  "UpdateChartArray h Seconds ChartId' Data' b =
     (if \<not> bIsInitialized_viz b then b
      else if bEnableBatchUpdates b
      then (let Update = \<lparr>ChartId = ChartId',
                          Method = ''updateArrayData'',
                          Data = JsonValueArrayToString h Data',
                          Timestamp = ToFloat Seconds\<rparr>
            in b\<lparr>PendingUpdates := PendingUpdates b @ [Update]\<rparr>)
      else UpdateChartArrayDataImmediate h ChartId' Data' b)"

subsection \<open>The batch update system\<close>

text \<open>
  The first loop of \<open>ProcessBatchedUpdates\<close>: every update is appended to the array that
  the map holds for its chart id, a new chart id getting a new entry at the end of the
  map.  \<open>GroupedUpdates[Update.ChartId].Add(Update)\<close> appends through the reference to the
  stored array, so an entry keeps the spelling of the chart id that created it.
\<close>

fun GroupUpdates ::
  "FBatchUpdateData list \<Rightarrow> FBatchUpdateData list TMap \<Rightarrow> FBatchUpdateData list TMap" where
  "GroupUpdates [] GroupedUpdates = GroupedUpdates"
| "GroupUpdates (Update # Rest) GroupedUpdates =
     (let G = (if \<not> TMap_Contains GroupedUpdates (ChartId Update)
               then TMap_Add (ChartId Update) [] GroupedUpdates
               else GroupedUpdates)
      in GroupUpdates Rest (TMap_Modify (ChartId Update) (\<lambda>Updates. Updates @ [Update]) G))"

text \<open>
  The call that the inner loop appends for one update; an unknown method adds nothing.
  The method is compared with \<open>operator==\<close> of \<open>FString\<close>, which ignores case.
\<close>

definition BatchCall :: "FString \<Rightarrow> FBatchUpdateData \<Rightarrow> FString" where
  "BatchCall ChartId' Update =
     (if FString_eq (Method Update) ''updateSingleData''
      then ''global.vizManager.batchUpdateSingle('' @ apostrophe @ ChartId' @ ''', '' @ Data Update @ '');''
      else if FString_eq (Method Update) ''updateMultiData''
      then ''global.vizManager.batchUpdateMulti('' @ apostrophe @ ChartId' @ ''', '' @ Data Update @ '');''
      else if FString_eq (Method Update) ''updateArrayData''
      then ''global.vizManager.batchUpdateArray('' @ apostrophe @ ChartId' @ ''', '' @ Data Update @ '');''
      else [])"

fun AppendBatchCalls :: "FString \<Rightarrow> FBatchUpdateData list \<Rightarrow> FString \<Rightarrow> FString" where
  "AppendBatchCalls ChartId' [] BatchScript = BatchScript"
| "AppendBatchCalls ChartId' (Update # Updates) BatchScript =
     AppendBatchCalls ChartId' Updates (BatchScript @ BatchCall ChartId' Update)"

definition BatchScript :: "FString \<Rightarrow> FBatchUpdateData list \<Rightarrow> FString" where
  "BatchScript ChartId' Updates =
     AppendBatchCalls ChartId' Updates
       (''global.vizManager.startBatch('' @ apostrophe @ ChartId' @ ''');'')
     @ ''global.vizManager.commitBatch('' @ apostrophe @ ChartId' @ ''');''"

text \<open>The second loop: one script per chart, run in the order of the map.\<close>

fun ProcessGroups ::
  "FHost \<Rightarrow> FBatchUpdateData list TMap \<Rightarrow> UDataVisualizationBridge \<Rightarrow> UDataVisualizationBridge" where
  "ProcessGroups h [] b = b"
| "ProcessGroups h ((ChartId', Updates) # GroupedUpdates) b =
     (let (Result, b1) = ExecuteJavaScript h (BatchScript ChartId' Updates) b;
          b2 = (if Contains Result ''ERROR''
                then UE_LOG_viz Error
                       (''Failed to process batched updates for '' @ apostrophe @ ChartId' @ ''': '' @ Result) b1
                else b1)
      in ProcessGroups h GroupedUpdates b2)"

definition ProcessBatchedUpdates :: "FHost \<Rightarrow> UDataVisualizationBridge \<Rightarrow> UDataVisualizationBridge" where
  "ProcessBatchedUpdates h b =
     (if length (PendingUpdates b) = 0 then b
      else (let GroupedUpdates = GroupUpdates (PendingUpdates b) [];
                b1 = ProcessGroups h GroupedUpdates b
            in b1\<lparr>PendingUpdates := []\<rparr>))"




definition EnableBatchUpdates :: "bool \<Rightarrow> UDataVisualizationBridge \<Rightarrow> UDataVisualizationBridge" where
  "EnableBatchUpdates bEnabled b = b\<lparr>bEnableBatchUpdates := bEnabled\<rparr>"

definition SetBatchInterval :: "real \<Rightarrow> UDataVisualizationBridge \<Rightarrow> UDataVisualizationBridge" where
  "SetBatchInterval Interval b = b\<lparr>BatchInterval := Interval\<rparr>"

subsection \<open>Chart management, export and cleanup\<close>

definition RemoveChart :: "FHost \<Rightarrow> FString \<Rightarrow> UDataVisualizationBridge \<Rightarrow> UDataVisualizationBridge" where
  "RemoveChart h ChartId' b =
     (if \<not> bIsInitialized_viz b then b
      else (let Script = ''global.vizManager.removeChart('' @ apostrophe @ ChartId' @ ''');'';
                (Result, b1) = ExecuteJavaScript h Script b
            in if \<not> Contains Result ''ERROR''
               then UE_LOG_viz Log (''Removed chart: '' @ ChartId') (b1\<lparr>Charts := TMap_Remove ChartId' (Charts b1)\<rparr>)
               else UE_LOG_viz Error
                      (''Failed to remove chart '' @ apostrophe @ ChartId' @ ''': '' @ Result) b1))"

definition ClearAllCharts :: "FHost \<Rightarrow> UDataVisualizationBridge \<Rightarrow> UDataVisualizationBridge" where
  "ClearAllCharts h b =
     (if \<not> bIsInitialized_viz b then b
      else (let Script = ''global.vizManager.clearAllCharts();'';
                (Result, b1) = ExecuteJavaScript h Script b
            in if \<not> Contains Result ''ERROR''
               then UE_LOG_viz Log ''Cleared all charts'' (b1\<lparr>Charts := [], Dashboards := []\<rparr>)
               else UE_LOG_viz Error (''Failed to clear all charts: '' @ Result) b1))"

definition ExportChartAsImage :: "FHost \<Rightarrow> FString \<Rightarrow> FString \<Rightarrow> UDataVisualizationBridge \<Rightarrow> FString \<times> UDataVisualizationBridge" where
  "ExportChartAsImage h ChartId' Format b =
     (if \<not> bIsInitialized_viz b then ([], b)
      else (let Script = ''global.vizManager.exportAsImage('' @ apostrophe @ ChartId' @ ''', ''
                         @ apostrophe @ Format @ ''');'';
                (Result, b1) = ExecuteJavaScript h Script b
            in (if Contains Result ''ERROR'' then [] else Result, b1)))"

definition ExportChartAsData :: "FHost \<Rightarrow> FString \<Rightarrow> FString \<Rightarrow> UDataVisualizationBridge \<Rightarrow> FString \<times> UDataVisualizationBridge" where
  "ExportChartAsData h ChartId' Format b =
     (if \<not> bIsInitialized_viz b then ([], b)
      else (let Script = ''global.vizManager.exportAsData('' @ apostrophe @ ChartId' @ ''', ''
                         @ apostrophe @ Format @ ''');'';
                (Result, b1) = ExecuteJavaScript h Script b
            in (if Contains Result ''ERROR'' then [] else Result, b1)))"

definition Dispose :: "FHost \<Rightarrow> UDataVisualizationBridge \<Rightarrow> UDataVisualizationBridge" where
  "Dispose h b =
     (let b4 = (if bIsInitialized_viz b
                then (let b1 = ClearAllCharts h b;
                          b2 = (if WITH_V8 h
                                then b1\<lparr>JavaScriptContext := None, JavaScriptEngine := False\<rparr>
                                else b1);
                          b3 = b2\<lparr>bIsInitialized_viz := False\<rparr>
                      in UE_LOG_viz Log ''Data Visualization Bridge disposed'' b3)
                else b)
      in b4\<lparr>Charts := [], Dashboards := [], PendingUpdates := []\<rparr>)"

section \<open>Notions used to state the properties\<close>








text \<open>
  Decimal numbers, and a JSON reader for the example hosts, standing for the engine's
  \<open>TJsonReader\<close> and \<open>FJsonSerializer::Deserialize\<close>, which are not part of the
  repository.  \<open>ReadNumber\<close> reads a decimal at the head of a text and gives the number
  that it denotes and the rest of the text.  The reader reads compact JSON objects whose
  members are plain decimal numbers, \<open>{"k":-12.50,...}\<close>; any other text does not parse.
  A number is read as the \<open>double\<close> nearest to the decimal.  A member that occurs twice
  keeps its last value.
\<close>

definition IsDigit :: "char \<Rightarrow> bool" where
  "IsDigit c = (48 \<le> (of_char c :: nat) \<and> (of_char c :: nat) \<le> 57)"

definition DigitValue :: "char \<Rightarrow> nat" where
  "DigitValue c = of_char c - 48"

fun ReadDigits :: "FString \<Rightarrow> nat \<Rightarrow> nat \<times> FString" where
  "ReadDigits [] acc = (acc, [])"
| "ReadDigits (c # cs) acc =
     (if IsDigit c then ReadDigits cs (10 * acc + DigitValue c) else (acc, c # cs))"

text \<open>The digits after the point, if a point and a digit follow.\<close>

definition ReadFraction :: "FString \<Rightarrow> real \<times> FString" where
  "ReadFraction s =
     (case s of
        [] \<Rightarrow> (0, s)
      | c # cs \<Rightarrow>
          if c = CHR ''.'' \<and> cs \<noteq> [] \<and> IsDigit (hd cs)
          then (let (fraction, rest) = ReadDigits cs 0
                in (real fraction / 10 ^ (length cs - length rest), rest))
          else (0, s))"

definition ReadUnsigned :: "FString \<Rightarrow> (real \<times> FString) option" where
  "ReadUnsigned s =
     (if s = [] \<or> \<not> IsDigit (hd s) then None
      else (let (whole, s1) = ReadDigits s 0;
                (fraction, s2) = ReadFraction s1
            in Some (real whole + fraction, s2)))"

definition ReadNumber :: "FString \<Rightarrow> (real \<times> FString) option" where
  "ReadNumber s =
     (if s \<noteq> [] \<and> hd s = CHR ''-''
      then map_option (\<lambda>(x, rest). (- x, rest)) (ReadUnsigned (tl s))
      else ReadUnsigned s)"

definition ReadKey :: "FString \<Rightarrow> (FString \<times> FString) option" where
  "ReadKey s =
     (if s \<noteq> [] \<and> hd s = CHR 0x22
      then (let key = takeWhile (\<lambda>c. c \<noteq> CHR 0x22) (tl s);
                rest = dropWhile (\<lambda>c. c \<noteq> CHR 0x22) (tl s)
            in if rest = [] then None else Some (key, tl rest))
      else None)"

text \<open>
  The members up to the closing brace, which must end the text.  The first argument
  bounds the number of members; the reader passes the length of the text.
\<close>

fun ReadMembers :: "nat \<Rightarrow> FString \<Rightarrow> FJsonObject \<Rightarrow> FJsonObject option" where
  "ReadMembers 0 s obj = None"
| "ReadMembers (Suc n) s obj =
     (case ReadKey s of
        None \<Rightarrow> None
      | Some (key, s1) \<Rightarrow>
          if s1 = [] \<or> hd s1 \<noteq> CHR '':'' then None
          else (case ReadNumber (tl s1) of
                  None \<Rightarrow> None
                | Some (x, s2) \<Rightarrow>
                    if s2 = ''}'' then Some (TMap_Add key (JsonNumber (ToDouble x)) obj)
                    else if s2 \<noteq> [] \<and> hd s2 = CHR '',''
                    then ReadMembers n (tl s2) (TMap_Add key (JsonNumber (ToDouble x)) obj)
                    else None))"

definition ReadJsonObject :: "FString \<Rightarrow> FJsonObject option" where
  "ReadJsonObject s =
     (if s = ''{}'' then Some []
      else if s \<noteq> [] \<and> hd s = CHR ''{'' then ReadMembers (length s) (tl s) []
      else None)"

text \<open>
  A number rounded to two digits after the point, a tie to the even digit: the decimal
  that \<open>%.2f\<close> prints for it.
\<close>

definition Round2 :: "real \<Rightarrow> real" where
  "Round2 x = (if x < 0 then - 1 else 1) * real (nat (RoundHalfEven (\<bar>x\<bar> * 100))) / 100"



section \<open>Initial states and example hosts\<close>

text \<open>The state of a freshly constructed \<open>USteamAIBridge\<close>: the defaults of Bridge.h.\<close>

definition FSteamAIConfig_new :: FSteamAIConfig where
  "FSteamAIConfig_new =
     \<lparr>bEnableDebugLogging = False,
      JavaScriptFilePath = ''/Game/JavaScript/steam-ai.js'',
      bUseV8Engine = True,
      GarbageCollectionInterval = 30,
      MaxMemoryUsageMB = 128,
      bEnablePerformanceMonitoring = False\<rparr>"

definition USteamAIBridge_new :: USteamAIBridge where
  "USteamAIBridge_new =
     \<lparr>Config = FSteamAIConfig_new,
      bIsInitialized = False,
      bInitializationInProgress = False,
      V8ContextValid = False,
      RegisteredActions = [],
      RegisteredConditions = [],
      PerformanceStats =
        \<lparr>ScriptExecutionTimeMs = 0, TreeExecutionTimeMs = 0, ActiveAgents = 0, ActiveTrees = 0,
         MemoryUsageMB = 0, ScriptCallsPerSecond = 0\<rparr>,
      LastGCTime = 0,
      LastStatsUpdateTime = 0,
      ScriptCallsThisSecond = 0,
      Output = [],
      ClockReads = 0\<rparr>"

text \<open>
  Two hosts for the examples.  \<open>PlainHost\<close> is a build without V8 and a project without
  files.  \<open>V8Host\<close> is a build with V8 whose engine starts, whose project holds the data
  visualization package and the Steam AI package, and whose scripts all evaluate to
  \<open>undefined\<close>, except that a script mentioning \<open>bad\<close> throws.  Both print an infinity
  as \<open>inf\<close> and a NaN as \<open>nan\<close>, hold the components of a vector in \<open>float\<close>s, and
  read a field of a JSON object that is missing or not a number as \<open>0\<close>.
\<close>

definition ExamplePrintfNonFinite :: "FScalar \<Rightarrow> FString" where
  "ExamplePrintfNonFinite c =
     (case c of Infinity negative \<Rightarrow> (if negative then ''-inf'' else ''inf'') | _ \<Rightarrow> ''nan'')"

definition ExampleToVectorScalar :: "FScalar \<Rightarrow> FScalar" where
  "ExampleToVectorScalar c = (case c of Finite x \<Rightarrow> Finite (ToFloat x) | _ \<Rightarrow> c)"

definition ExampleGetNumberField :: "FJsonObject \<Rightarrow> FString \<Rightarrow> FScalar" where
  "ExampleGetNumberField obj FieldName =
     (case TMap_Find obj FieldName of Some (JsonNumber x) \<Rightarrow> Finite x | _ \<Rightarrow> Finite 0)"

definition PlainHost :: FHost where
  "PlainHost =
     \<lparr>WITH_V8 = False,
      ProjectContentDir = ''Content/'',
      ProjectDir = ''Project/'',
      FileExists = (\<lambda>p. False),
      LoadFileToString = (\<lambda>p. None),
      NowTicks = (\<lambda>k. 10000 * int k),
      GetTimeSeconds = 0,
      V8_EngineInitialize = False,
      V8_CreateContext = False,
      V8_ExecuteScript = (\<lambda>history Script. Inr V8Undefined),
      Serialize = (\<lambda>obj. ''{}''),
      SerializeArray = (\<lambda>vs. ''[]''),
      Deserialize = ReadJsonObject,
      PrintfNonFinite = ExamplePrintfNonFinite,
      ToVectorScalar = ExampleToVectorScalar,
      GetNumberField = ExampleGetNumberField\<rparr>"

definition V8Host :: FHost where
  "V8Host =
     \<lparr>WITH_V8 = True,
      ProjectContentDir = ''Content/'',
      ProjectDir = ''Project/'',
      FileExists = (\<lambda>p. p = ''Content/JavaScript/node_modules/@steamproject/data-visualization/dist/index.js''),
      LoadFileToString =
        (\<lambda>p. if p = ''Content/JavaScript/node_modules/@steamproject/data-visualization/dist/index.js''
             then Some ''var DataVisualizationManager;''
             else if p = ''Content/Scripts/steam-ai.js'' then Some ''module.exports = {};''
             else None),
      NowTicks = (\<lambda>k. 10000 * int k),
      GetTimeSeconds = 0,
      V8_EngineInitialize = True,
      V8_CreateContext = True,
      V8_ExecuteScript =
        (\<lambda>history Script. if Contains Script ''bad'' then Inl ''bad chart'' else Inr V8Undefined),
      Serialize = (\<lambda>obj. ''{}''),
      SerializeArray = (\<lambda>vs. ''[]''),
      Deserialize = ReadJsonObject,
      PrintfNonFinite = ExamplePrintfNonFinite,
      ToVectorScalar = ExampleToVectorScalar,
      GetNumberField = ExampleGetNumberField\<rparr>"

text \<open>An initialized visualization bridge whose context has not run a script yet.\<close>

definition ReadyVizBridge :: UDataVisualizationBridge where
  "ReadyVizBridge =
     UDataVisualizationBridge_new
       \<lparr>bIsInitialized_viz := True, JavaScriptEngine := True, JavaScriptContext := Some []\<rparr>"




section \<open>Properties\<close>

subsection \<open>Strings, maps and rounding\<close>

lemma FString_eq_refl [simp]: "FString_eq a a"
  by (simp add: FString_eq_def)

lemma FString_eq_sym: "FString_eq a c = FString_eq c a"
  by (auto simp add: FString_eq_def)

lemma FString_eq_trans: "FString_eq a c \<Longrightarrow> FString_eq c d \<Longrightarrow> FString_eq a d"
  by (simp add: FString_eq_def)

lemma TMap_Find_Add:
  "TMap_Find (TMap_Add k v m) k' = (if FString_eq k k' then Some v else TMap_Find m k')"
  by (induction m) (auto simp add: FString_eq_def)


lemma TMap_Find_Remove:
  "TMap_Find (TMap_Remove k m) k' = (if FString_eq k k' then None else TMap_Find m k')"
  by (induction m) (auto simp add: TMap_Remove_def FString_eq_def)


lemma RoundHalfEven_of_int [simp]: "RoundHalfEven (of_int i) = i"
  by (simp add: RoundHalfEven_def)



lemma RoundHalfEven_numeral [simp]:
  "RoundHalfEven (numeral n) = numeral n" "RoundHalfEven 0 = 0" "RoundHalfEven 1 = 1"
  using RoundHalfEven_of_int [of "numeral n"] RoundHalfEven_of_int [of 0] RoundHalfEven_of_int [of 1]
  by simp_all

text \<open>
  The value of \<open>RoundTo\<close> at a number whose binary exponent is known: the number is scaled
  to an integer of \<open>p\<close> binary digits, rounded, and scaled back.
\<close>

lemma RoundTo_exponent:
  assumes "2 powr of_int k \<le> \<bar>x\<bar>" and "\<bar>x\<bar> < 2 powr of_int (k + 1)"
  shows "RoundTo p x =
           2 powr (of_int k - of_nat p + 1)
           * of_int (RoundHalfEven (x / 2 powr (of_int k - of_nat p + 1)))"
proof -
  have positive: "0 < \<bar>x\<bar>"
    using assms(1) by (smt (verit) powr_gt_zero)
  have "\<lfloor>log 2 \<bar>x\<bar>\<rfloor> = k"
    using assms positive by (simp add: floor_log_eq_powr_iff)
  moreover have "x \<noteq> 0"
    using positive by simp
  ultimately show ?thesis
    by (simp add: RoundTo_def Let_def)
qed

text \<open>
  A number given by a significand \<open>y\<close> of \<open>p\<close> binary digits before the point and a
  scale: the significand is rounded to an integer.
\<close>

lemma RoundTo_scaled:
  assumes "2 ^ (p - 1) \<le> \<bar>y\<bar>" and "\<bar>y\<bar> < 2 ^ p" and "0 < p"
  shows "RoundTo p (y * 2 powr of_int e) = of_int (RoundHalfEven y) * 2 powr of_int e"
proof -
  let ?x = "y * 2 powr of_int e"
  have scale: "(0::real) < 2 powr of_int e"
    by simp
  have size: "\<bar>?x\<bar> = \<bar>y\<bar> * 2 powr of_int e"
    by (simp add: abs_mult)
  have "2 powr of_int (int (p - 1)) * 2 powr of_int e \<le> \<bar>?x\<bar>"
    using assms(1) size scale by (simp add: powr_realpow)
  then have lower: "2 powr of_int (e + int p - 1) \<le> \<bar>?x\<bar>"
    using assms(3) by (simp add: powr_add [symmetric] algebra_simps of_nat_diff)
  have "\<bar>?x\<bar> < 2 powr of_int (int p) * 2 powr of_int e"
    using assms(2) size scale by (simp add: powr_realpow)
  then have upper: "\<bar>?x\<bar> < 2 powr of_int (e + int p - 1 + 1)"
    by (simp add: powr_add [symmetric] algebra_simps)
  have "RoundTo p ?x =
          2 powr (of_int (e + int p - 1) - of_nat p + 1)
          * of_int (RoundHalfEven (?x / 2 powr (of_int (e + int p - 1) - of_nat p + 1)))"
    using lower upper by (rule RoundTo_exponent)
  moreover have "of_int (e + int p - 1) - of_nat p + 1 = (of_int e :: real)"
    by simp
  ultimately have "RoundTo p ?x = 2 powr of_int e * of_int (RoundHalfEven (?x / 2 powr of_int e))"
    by simp
  moreover have "?x / 2 powr of_int e = y"
    by simp
  ultimately show ?thesis
    by simp
qed

lemma RoundTo_quotient:
  assumes "x = y / 2 ^ n" and "2 ^ (p - 1) \<le> \<bar>y\<bar>" and "\<bar>y\<bar> < 2 ^ p" and "0 < p"
  shows "RoundTo p x = of_int (RoundHalfEven y) / 2 ^ n"
proof -
  have "(2::real) powr of_int (- int n) = 1 / 2 ^ n"
    by (simp add: powr_minus powr_realpow divide_inverse)
  then show ?thesis
    using RoundTo_scaled [OF assms(2-4), of "- int n"] assms(1) by simp
qed


lemma ToFloat_quotient:
  "x = y / 2 ^ n \<Longrightarrow> 2 ^ 23 \<le> \<bar>y\<bar> \<Longrightarrow> \<bar>y\<bar> < 2 ^ 24 \<Longrightarrow> ToFloat x = of_int (RoundHalfEven y) / 2 ^ n"
  unfolding ToFloat_def by (rule RoundTo_quotient [of x y n]) simp_all



lemma ToFloat_zero [simp]: "ToFloat 0 = 0"
  by (simp add: ToFloat_def RoundTo_def)

lemma ToDouble_zero [simp]: "ToDouble 0 = 0"
  by (simp add: ToDouble_def RoundTo_def)

text \<open>Small dyadic numbers, as the examples use them, are \<open>float\<close>s and \<open>double\<close>s.\<close>

lemma ToFloat_examples:
  "ToFloat 1 = 1" "ToFloat 2 = 2" "ToFloat 29 = 29" "ToFloat 31 = 31" "ToFloat 32 = 32"
  "ToFloat 40 = 40" "ToFloat 9 = 9"
  using ToFloat_quotient [of 1 8388608 23] ToFloat_quotient [of 2 8388608 22]
    ToFloat_quotient [of 29 15204352 19] ToFloat_quotient [of 31 16252928 19]
    ToFloat_quotient [of 32 8388608 18]
    ToFloat_quotient [of 40 10485760 18] ToFloat_quotient [of 9 9437184 20]
  by simp_all



subsection \<open>The fallback engine\<close>

text \<open>
  Claim C9.  The fallback engine reports success for every script and returns the empty
  string for every function call.  Hence, on an initialized bridge that does not take
  the V8 branch (V8 not compiled in, switched off, or without a valid context),
  \<open>CreateAgent\<close>, \<open>CreateBehaviorTree\<close> and \<open>SetAgentMemory\<close> return \<open>false\<close> for every
  input: the empty result never contains \<open>true\<close>.
\<close>

theorem fallback_engine_results:
  "fst (ExecuteFallbackScript Script b) = True \<and>
   fst (ExecuteFallbackFunction FunctionName Parameters b) = [] \<and>
   (bIsInitialized b \<and> \<not> (WITH_V8 h \<and> bUseV8Engine (Config b) \<and> V8ContextValid b) \<longrightarrow>
      fst (CreateAgent h AgentId AgentConfig b) = False \<and>
      fst (CreateBehaviorTree h TreeId TreeConfig b) = False \<and>
      fst (SetAgentMemory h AgentId Key Value b) = False)"
  by (simp add: ExecuteFallbackScript_def ExecuteFallbackFunction_def CreateAgent_def
        CreateBehaviorTree_def SetAgentMemory_def ExecuteFunction_def
        GetCurrentTimeMilliseconds_def Let_def split_def)

theorem fallback_engine_results_witness:
  "bIsInitialized (USteamAIBridge_new\<lparr>bIsInitialized := True\<rparr>) \<and>
   \<not> WITH_V8 PlainHost \<and>
   fst (ExecuteFallbackScript ''gc();'' (USteamAIBridge_new\<lparr>bIsInitialized := True\<rparr>)) = True \<and>
   fst (ExecuteFallbackFunction ''f'' [''1''] (USteamAIBridge_new\<lparr>bIsInitialized := True\<rparr>)) = [] \<and>
   fst (CreateAgent PlainHost ''guard'' ''{}'' (USteamAIBridge_new\<lparr>bIsInitialized := True\<rparr>)) = False \<and>
   fst (CreateBehaviorTree PlainHost ''patrol'' ''{}'' (USteamAIBridge_new\<lparr>bIsInitialized := True\<rparr>)) = False \<and>
   fst (SetAgentMemory PlainHost ''guard'' ''hp'' ''3'' (USteamAIBridge_new\<lparr>bIsInitialized := True\<rparr>)) = False"
  using fallback_engine_results [of "''gc();''" "USteamAIBridge_new\<lparr>bIsInitialized := True\<rparr>"
      "''f''" "[''1'']" PlainHost "''guard''" "''{}''" "''patrol''" "''{}''" "''hp''" "''3''"]
  by (simp add: PlainHost_def USteamAIBridge_new_def)

subsection \<open>Failing operations\<close>

lemma ExecuteScript_uninitialized:
  "\<not> bIsInitialized b \<Longrightarrow>
   ExecuteScript h Script b =
     (False, b\<lparr>Output := Output b @ [UE_LOG Error ''Attempting to execute script on uninitialized bridge'']\<rparr>)"
  by (simp add: ExecuteScript_def STEAM_AI_ERROR_def)

lemma ExecuteFunction_uninitialized:
  "\<not> bIsInitialized b \<Longrightarrow>
   ExecuteFunction h FunctionName Parameters b =
     ([], b\<lparr>Output := Output b @ [UE_LOG Error ''Attempting to execute function on uninitialized bridge'']\<rparr>)"
  by (simp add: ExecuteFunction_def STEAM_AI_ERROR_def)

text \<open>
  Claim C2.  On an uninitialized Steam AI bridge \<open>ExecuteScript\<close> appends one error line to
  the log and returns \<open>false\<close>, and \<open>ExecuteFunction\<close> appends one error line and returns the
  empty string, whatever the script, the function name and the parameters.  On the
  visualization bridge \<open>ExportChartAsImage\<close> and \<open>ExportChartAsData\<close> return the empty string,
  for every chart id and format, when the bridge is uninitialized and when the result of
  the export script contains \<open>ERROR\<close>.  (The two export methods return the empty string
  without a log line.)
\<close>

theorem failing_operations:
  "(\<not> bIsInitialized b \<longrightarrow>
      ExecuteScript h Script b =
        (False, b\<lparr>Output := Output b
                   @ [UE_LOG Error ''Attempting to execute script on uninitialized bridge'']\<rparr>) \<and>
      ExecuteFunction h FunctionName Parameters b =
        ([], b\<lparr>Output := Output b
                @ [UE_LOG Error ''Attempting to execute function on uninitialized bridge'']\<rparr>)) \<and>
   (\<not> bIsInitialized_viz v \<longrightarrow>
      ExportChartAsImage h ChartId' Format v = ([], v) \<and>
      ExportChartAsData h ChartId' Format v = ([], v)) \<and>
   (bIsInitialized_viz v \<and>
    Contains (fst (ExecuteJavaScript h
       (''global.vizManager.exportAsImage('' @ apostrophe @ ChartId' @ ''', '' @ apostrophe @ Format @ ''');'')
       v)) ''ERROR'' \<longrightarrow>
      fst (ExportChartAsImage h ChartId' Format v) = []) \<and>
   (bIsInitialized_viz v \<and>
    Contains (fst (ExecuteJavaScript h
       (''global.vizManager.exportAsData('' @ apostrophe @ ChartId' @ ''', '' @ apostrophe @ Format @ ''');'')
       v)) ''ERROR'' \<longrightarrow>
      fst (ExportChartAsData h ChartId' Format v) = [])"
  by (simp add: ExecuteScript_uninitialized ExecuteFunction_uninitialized
        ExportChartAsImage_def ExportChartAsData_def Let_def split_def)

theorem failing_operations_witness:
  "\<not> bIsInitialized USteamAIBridge_new \<and>
   ExecuteScript V8Host ''gc();'' USteamAIBridge_new =
     (False, USteamAIBridge_new\<lparr>Output :=
        [UE_LOG Error ''Attempting to execute script on uninitialized bridge'']\<rparr>) \<and>
   ExecuteFunction V8Host ''f'' [] USteamAIBridge_new =
     ([], USteamAIBridge_new\<lparr>Output :=
        [UE_LOG Error ''Attempting to execute function on uninitialized bridge'']\<rparr>) \<and>
   \<not> bIsInitialized_viz UDataVisualizationBridge_new \<and>
   fst (ExportChartAsImage V8Host ''fps'' ''png'' UDataVisualizationBridge_new) = [] \<and>
   fst (ExportChartAsData V8Host ''fps'' ''json'' UDataVisualizationBridge_new) = [] \<and>
   bIsInitialized_viz ReadyVizBridge \<and>
   fst (ExecuteJavaScript V8Host ''global.vizManager.exportAsImage('bad', 'png');'' ReadyVizBridge)
     = ''ERROR: bad chart'' \<and>
   fst (ExportChartAsImage V8Host ''bad'' ''png'' ReadyVizBridge) = [] \<and>
   fst (ExportChartAsData V8Host ''bad'' ''json'' ReadyVizBridge) = []"
  using failing_operations [of USteamAIBridge_new V8Host "''gc();''" "''f''" "[]"
          UDataVisualizationBridge_new "''fps''" "''png''"]
        failing_operations [of USteamAIBridge_new V8Host "''gc();''" "''f''" "[]"
          UDataVisualizationBridge_new "''fps''" "''json''"]
        failing_operations [of USteamAIBridge_new V8Host "''gc();''" "''f''" "[]"
          ReadyVizBridge "''bad''" "''png''"]
        failing_operations [of USteamAIBridge_new V8Host "''gc();''" "''f''" "[]"
          ReadyVizBridge "''bad''" "''json''"]
  by (simp add: ExecuteJavaScript_def V8Host_def ReadyVizBridge_def UDataVisualizationBridge_new_def
        USteamAIBridge_new_def ToUpper_def)

subsection \<open>What running a script changes\<close>

text \<open>
  \<open>ExecuteJavaScript\<close> changes nothing but the script history of a valid context, and only
  in a build with V8.
\<close>

lemma ExecuteJavaScript_state:
  "snd (ExecuteJavaScript h Script b) =
     b\<lparr>JavaScriptContext :=
         (if WITH_V8 h then map_option (\<lambda>history. history @ [Script]) (JavaScriptContext b)
          else JavaScriptContext b)\<rparr>"
  by (simp add: ExecuteJavaScript_def Let_def split: option.splits sum.splits FV8Value.splits)

lemma ExecuteJavaScript_fields [simp]:
  "bIsInitialized_viz (snd (ExecuteJavaScript h Script b)) = bIsInitialized_viz b"
  "Charts (snd (ExecuteJavaScript h Script b)) = Charts b"
  "Dashboards (snd (ExecuteJavaScript h Script b)) = Dashboards b"
  "PendingUpdates (snd (ExecuteJavaScript h Script b)) = PendingUpdates b"
  "LastBatchTime (snd (ExecuteJavaScript h Script b)) = LastBatchTime b"
  "bEnableBatchUpdates (snd (ExecuteJavaScript h Script b)) = bEnableBatchUpdates b"
  "BatchInterval (snd (ExecuteJavaScript h Script b)) = BatchInterval b"
  "Output_viz (snd (ExecuteJavaScript h Script b)) = Output_viz b"
  by (simp_all add: ExecuteJavaScript_state)

lemma Export_writes_no_log:
  "Output_viz (snd (ExportChartAsImage h c f v)) = Output_viz v"
  "Output_viz (snd (ExportChartAsData h c f v)) = Output_viz v"
  by (simp_all add: ExportChartAsImage_def ExportChartAsData_def ExecuteJavaScript_state
        Let_def split_def)

lemma ExecuteJavaScript_context:
  "WITH_V8 h \<Longrightarrow> JavaScriptContext b = Some history \<Longrightarrow>
   JavaScriptContext (snd (ExecuteJavaScript h Script b)) = Some (history @ [Script])"
  by (simp add: ExecuteJavaScript_state)

lemma UE_LOG_viz_fields [simp]:
  "bIsInitialized_viz (UE_LOG_viz l m b) = bIsInitialized_viz b"
  "Charts (UE_LOG_viz l m b) = Charts b"
  "Dashboards (UE_LOG_viz l m b) = Dashboards b"
  "PendingUpdates (UE_LOG_viz l m b) = PendingUpdates b"
  "LastBatchTime (UE_LOG_viz l m b) = LastBatchTime b"
  "bEnableBatchUpdates (UE_LOG_viz l m b) = bEnableBatchUpdates b"
  "BatchInterval (UE_LOG_viz l m b) = BatchInterval b"
  "JavaScriptContext (UE_LOG_viz l m b) = JavaScriptContext b"
  by (simp_all add: UE_LOG_viz_def)

lemma ExecuteScript_flags [simp]:
  "bIsInitialized (snd (ExecuteScript h Script b)) = bIsInitialized b"
  "bInitializationInProgress (snd (ExecuteScript h Script b)) = bInitializationInProgress b"
  by (simp_all add: ExecuteScript_def ExecuteV8Script_def ExecuteFallbackScript_def
        RecordScriptCall_def GetCurrentTimeMilliseconds_def STEAM_AI_ERROR_def STEAM_AI_LOG_def
        Let_def split_def)

lemma SetupJavaScriptEnvironment_flags [simp]:
  "bIsInitialized (SetupJavaScriptEnvironment h b) = bIsInitialized b"
  "bInitializationInProgress (SetupJavaScriptEnvironment h b) = bInitializationInProgress b"
  by (simp_all add: SetupJavaScriptEnvironment_def InitializeV8Engine_def InitializeFallbackEngine_def
        STEAM_AI_WARN_def STEAM_AI_LOG_def Let_def split_def)

lemma LoadSteamAIPackage_flags [simp]:
  "bIsInitialized (snd (LoadSteamAIPackage h b)) = bIsInitialized b"
  "bInitializationInProgress (snd (LoadSteamAIPackage h b)) = bInitializationInProgress b"
  by (simp_all add: LoadSteamAIPackage_def STEAM_AI_ERROR_def Let_def split: option.splits prod.splits)

subsection \<open>Initialization\<close>

text \<open>
  An observation on \<open>InitializeAI\<close>: \<open>LoadSteamAIPackage\<close> hands the wrapped package to
  \<open>ExecuteScript\<close> while \<open>bIsInitialized\<close> is still \<open>false\<close>, and \<open>ExecuteScript\<close> refuses
  to run on an uninitialized bridge.  So the load fails whether or not a file was found.
\<close>

lemma LoadSteamAIPackage_uninitialized:
  "\<not> bIsInitialized b \<Longrightarrow> fst (LoadSteamAIPackage h b) = False"
  by (simp add: LoadSteamAIPackage_def ExecuteScript_uninitialized Let_def
        split: option.splits prod.splits)

lemma InitializeAI_never_succeeds:
  "\<not> bIsInitialized b \<Longrightarrow> fst (InitializeAI h b) = False"
  by (simp add: InitializeAI_def LoadSteamAIPackage_uninitialized STEAM_AI_LOG_def Let_def split_def)

lemma InitializeJavaScriptEngine_initialized [simp]:
  "bIsInitialized_viz (snd (InitializeJavaScriptEngine h b)) = bIsInitialized_viz b"
  by (simp add: InitializeJavaScriptEngine_def Let_def split: option.splits sum.splits)

lemma LoadDataVisualizationPackage_initialized [simp]:
  "bIsInitialized_viz (snd (LoadDataVisualizationPackage h b)) = bIsInitialized_viz b"
  by (simp add: LoadDataVisualizationPackage_def Let_def split_def split: option.splits)

text \<open>
  Claim C8.  \<open>InitializeAI\<close> on an initialized bridge returns \<open>true\<close> and leaves the state as
  it is.  When it runs (the bridge neither initialized nor initializing) and loading the
  package fails, it returns \<open>false\<close>, \<open>bIsInitialized\<close> is still \<open>false\<close>,
  \<open>bInitializationInProgress\<close> is \<open>false\<close> again and the last thing it does is to broadcast
  \<open>OnAIInitialized\<close> with \<open>false\<close>.  \<open>Initialize\<close> of the visualization bridge returns \<open>true\<close>
  without a change when already initialized, and returns \<open>false\<close> with \<open>bIsInitialized\<close> still
  \<open>false\<close> when the engine or the package fails to initialize.
\<close>

theorem initialization_idempotent_failure_safe:
  "(bIsInitialized b \<longrightarrow> InitializeAI h b = (True, b)) \<and>
   (\<not> bIsInitialized b \<and> \<not> bInitializationInProgress b \<and>
    \<not> fst (LoadSteamAIPackage h
             (SetupJavaScriptEnvironment h
                (STEAM_AI_LOG ''Initializing Steam AI Bridge...''
                   (b\<lparr>bInitializationInProgress := True\<rparr>)))) \<longrightarrow>
      fst (InitializeAI h b) = False \<and>
      \<not> bIsInitialized (snd (InitializeAI h b)) \<and>
      \<not> bInitializationInProgress (snd (InitializeAI h b)) \<and>
      last (Output (snd (InitializeAI h b))) = OnAIInitialized_Broadcast False) \<and>
   (bIsInitialized_viz v \<longrightarrow> Initialize h v = (True, v)) \<and>
   (\<not> bIsInitialized_viz v \<and>
    (\<not> fst (InitializeJavaScriptEngine h
              (UE_LOG_viz Log ''Initializing Data Visualization Bridge...'' v)) \<or>
     \<not> fst (LoadDataVisualizationPackage h
              (snd (InitializeJavaScriptEngine h
                      (UE_LOG_viz Log ''Initializing Data Visualization Bridge...'' v))))) \<longrightarrow>
      fst (Initialize h v) = False \<and> \<not> bIsInitialized_viz (snd (Initialize h v)))"
proof -
  have ai_done: "bIsInitialized b \<longrightarrow> InitializeAI h b = (True, b)"
    by (simp add: InitializeAI_def)
  have ai_fail:
    "\<not> bIsInitialized b \<and> \<not> bInitializationInProgress b \<and>
     \<not> fst (LoadSteamAIPackage h
              (SetupJavaScriptEnvironment h
                 (STEAM_AI_LOG ''Initializing Steam AI Bridge...''
                    (b\<lparr>bInitializationInProgress := True\<rparr>)))) \<longrightarrow>
       fst (InitializeAI h b) = False \<and>
       \<not> bIsInitialized (snd (InitializeAI h b)) \<and>
       \<not> bInitializationInProgress (snd (InitializeAI h b)) \<and>
       last (Output (snd (InitializeAI h b))) = OnAIInitialized_Broadcast False"
    by (simp add: InitializeAI_def Let_def split_def STEAM_AI_ERROR_def STEAM_AI_LOG_def)
  have viz_done: "bIsInitialized_viz v \<longrightarrow> Initialize h v = (True, v)"
    by (simp add: Initialize_def)
  have viz_fail:
    "\<not> bIsInitialized_viz v \<and>
     (\<not> fst (InitializeJavaScriptEngine h
               (UE_LOG_viz Log ''Initializing Data Visualization Bridge...'' v)) \<or>
      \<not> fst (LoadDataVisualizationPackage h
               (snd (InitializeJavaScriptEngine h
                       (UE_LOG_viz Log ''Initializing Data Visualization Bridge...'' v))))) \<longrightarrow>
       fst (Initialize h v) = False \<and> \<not> bIsInitialized_viz (snd (Initialize h v))"
    by (auto simp add: Initialize_def Let_def split_def)
  from ai_done ai_fail viz_done viz_fail show ?thesis by blast
qed

theorem initialization_idempotent_failure_safe_witness:
  "bIsInitialized (USteamAIBridge_new\<lparr>bIsInitialized := True\<rparr>) \<and>
   InitializeAI V8Host (USteamAIBridge_new\<lparr>bIsInitialized := True\<rparr>)
     = (True, USteamAIBridge_new\<lparr>bIsInitialized := True\<rparr>) \<and>
   \<not> bIsInitialized USteamAIBridge_new \<and> \<not> bInitializationInProgress USteamAIBridge_new \<and>
   \<not> fst (LoadSteamAIPackage V8Host
            (SetupJavaScriptEnvironment V8Host
               (STEAM_AI_LOG ''Initializing Steam AI Bridge...''
                  (USteamAIBridge_new\<lparr>bInitializationInProgress := True\<rparr>)))) \<and>
   fst (InitializeAI V8Host USteamAIBridge_new) = False \<and>
   \<not> bIsInitialized (snd (InitializeAI V8Host USteamAIBridge_new)) \<and>
   \<not> bInitializationInProgress (snd (InitializeAI V8Host USteamAIBridge_new)) \<and>
   last (Output (snd (InitializeAI V8Host USteamAIBridge_new))) = OnAIInitialized_Broadcast False \<and>
   bIsInitialized_viz ReadyVizBridge \<and>
   Initialize V8Host ReadyVizBridge = (True, ReadyVizBridge) \<and>
   \<not> bIsInitialized_viz UDataVisualizationBridge_new \<and>
   \<not> fst (InitializeJavaScriptEngine PlainHost
            (UE_LOG_viz Log ''Initializing Data Visualization Bridge...'' UDataVisualizationBridge_new)) \<and>
   fst (Initialize PlainHost UDataVisualizationBridge_new) = False \<and>
   \<not> bIsInitialized_viz (snd (Initialize PlainHost UDataVisualizationBridge_new))"
proof -
  have ai: "\<not> bIsInitialized USteamAIBridge_new" "\<not> bInitializationInProgress USteamAIBridge_new"
    by (simp_all add: USteamAIBridge_new_def)
  have load:
    "\<not> fst (LoadSteamAIPackage V8Host
             (SetupJavaScriptEnvironment V8Host
                (STEAM_AI_LOG ''Initializing Steam AI Bridge...''
                   (USteamAIBridge_new\<lparr>bInitializationInProgress := True\<rparr>))))"
    by (simp add: LoadSteamAIPackage_uninitialized STEAM_AI_LOG_def ai)
  have viz: "bIsInitialized_viz ReadyVizBridge" "\<not> bIsInitialized_viz UDataVisualizationBridge_new"
    by (simp_all add: ReadyVizBridge_def UDataVisualizationBridge_new_def)
  have engine:
    "\<not> fst (InitializeJavaScriptEngine PlainHost
             (UE_LOG_viz Log ''Initializing Data Visualization Bridge...'' UDataVisualizationBridge_new))"
    by (simp add: InitializeJavaScriptEngine_def PlainHost_def)
  show ?thesis
    using initialization_idempotent_failure_safe
            [of "USteamAIBridge_new\<lparr>bIsInitialized := True\<rparr>" V8Host ReadyVizBridge]
          initialization_idempotent_failure_safe
            [of USteamAIBridge_new V8Host UDataVisualizationBridge_new]
          initialization_idempotent_failure_safe
            [of USteamAIBridge_new PlainHost UDataVisualizationBridge_new]
          ai load viz engine
    by simp
qed

subsection \<open>Queued and immediate chart updates\<close>

lemma UpdateChartImmediate_state:
  "PendingUpdates (UpdateChartImmediate h c t x b) = PendingUpdates b"
  "WITH_V8 h \<Longrightarrow> JavaScriptContext b = Some history \<Longrightarrow>
   JavaScriptContext (UpdateChartImmediate h c t x b) =
     Some (history @ [''global.vizManager.updateChart('' @ apostrophe @ c @ ''', ''
                      @ Printf_d (sint t) @ '', '' @ Printf_f 6 x @ '');''])"
  by (simp_all add: UpdateChartImmediate_def Let_def split_def ExecuteJavaScript_context)

lemma UpdateChartMultiDataImmediate_state:
  "PendingUpdates (UpdateChartMultiDataImmediate h c d b) = PendingUpdates b"
  "WITH_V8 h \<Longrightarrow> JavaScriptContext b = Some history \<Longrightarrow>
   JavaScriptContext (UpdateChartMultiDataImmediate h c d b) =
     Some (history @ [''global.vizManager.updateChartMultiData('' @ apostrophe @ c @ ''', ''
                      @ JsonObjectToString h d @ '');''])"
  by (simp_all add: UpdateChartMultiDataImmediate_def Let_def split_def ExecuteJavaScript_context)

lemma UpdateChartArrayDataImmediate_state:
  "PendingUpdates (UpdateChartArrayDataImmediate h c a b) = PendingUpdates b"
  "WITH_V8 h \<Longrightarrow> JavaScriptContext b = Some history \<Longrightarrow>
   JavaScriptContext (UpdateChartArrayDataImmediate h c a b) =
     Some (history @ [''global.vizManager.updateChartArrayData('' @ apostrophe @ c @ ''', ''
                      @ JsonValueArrayToString h a @ '');''])"
  by (simp_all add: UpdateChartArrayDataImmediate_def Let_def split_def ExecuteJavaScript_context)

text \<open>
  Claim C5.  For every chart id and payload:
  \<^item> on an uninitialized bridge the three update methods change nothing;
  \<^item> on an initialized bridge with batch updates enabled each of them appends exactly one
    entry to \<open>PendingUpdates\<close>, with the chart id and the method name \<open>updateSingleData\<close>,
    \<open>updateMultiData\<close> or \<open>updateArrayData\<close>, and changes no other field: in particular
    the script history of the context stays as it is, so no script is run;
  \<^item> with batch updates disabled each of them is its immediate counterpart, which leaves
    \<open>PendingUpdates\<close> as it is and runs exactly the matching update script in a valid
    context.
\<close>

theorem update_chart_batching:
  \<open>(\<not> bIsInitialized_viz b \<longrightarrow>
      UpdateChart h Seconds ChartId' Timestamp' Value b = b \<and>
      UpdateChartMultiData h Seconds ChartId' ObjectData b = b \<and>
      UpdateChartArray h Seconds ChartId' ArrayData b = b) \<and>
   (bIsInitialized_viz b \<and> bEnableBatchUpdates b \<longrightarrow>
      UpdateChart h Seconds ChartId' Timestamp' Value b =
        b\<lparr>PendingUpdates := PendingUpdates b @
            [\<lparr>ChartId = ChartId', Method = ''updateSingleData'',
              Data = ''{"timestamp": '' @ Printf_d (sint Timestamp')
                     @ '', "value": '' @ Printf_f 6 Value @ ''}'',
              Timestamp = ToFloat Seconds\<rparr>]\<rparr> \<and>
      UpdateChartMultiData h Seconds ChartId' ObjectData b =
        b\<lparr>PendingUpdates := PendingUpdates b @
            [\<lparr>ChartId = ChartId', Method = ''updateMultiData'',
              Data = JsonObjectToString h ObjectData, Timestamp = ToFloat Seconds\<rparr>]\<rparr> \<and>
      UpdateChartArray h Seconds ChartId' ArrayData b =
        b\<lparr>PendingUpdates := PendingUpdates b @
            [\<lparr>ChartId = ChartId', Method = ''updateArrayData'',
              Data = JsonValueArrayToString h ArrayData, Timestamp = ToFloat Seconds\<rparr>]\<rparr>) \<and>
   (bIsInitialized_viz b \<and> \<not> bEnableBatchUpdates b \<longrightarrow>
      UpdateChart h Seconds ChartId' Timestamp' Value b
        = UpdateChartImmediate h ChartId' Timestamp' Value b \<and>
      UpdateChartMultiData h Seconds ChartId' ObjectData b
        = UpdateChartMultiDataImmediate h ChartId' ObjectData b \<and>
      UpdateChartArray h Seconds ChartId' ArrayData b
        = UpdateChartArrayDataImmediate h ChartId' ArrayData b \<and>
      PendingUpdates (UpdateChart h Seconds ChartId' Timestamp' Value b) = PendingUpdates b \<and>
      PendingUpdates (UpdateChartMultiData h Seconds ChartId' ObjectData b) = PendingUpdates b \<and>
      PendingUpdates (UpdateChartArray h Seconds ChartId' ArrayData b) = PendingUpdates b \<and>
      (WITH_V8 h \<and> JavaScriptContext b = Some history \<longrightarrow>
         JavaScriptContext (UpdateChart h Seconds ChartId' Timestamp' Value b) =
           Some (history @ [''global.vizManager.updateChart('' @ apostrophe @ ChartId' @ ''', ''
                            @ Printf_d (sint Timestamp') @ '', '' @ Printf_f 6 Value @ '');'']) \<and>
         JavaScriptContext (UpdateChartMultiData h Seconds ChartId' ObjectData b) =
           Some (history @ [''global.vizManager.updateChartMultiData('' @ apostrophe @ ChartId'
                            @ ''', '' @ JsonObjectToString h ObjectData @ '');'']) \<and>
         JavaScriptContext (UpdateChartArray h Seconds ChartId' ArrayData b) =
           Some (history @ [''global.vizManager.updateChartArrayData('' @ apostrophe @ ChartId'
                            @ ''', '' @ JsonValueArrayToString h ArrayData @ '');''])))\<close>
  by (simp add: UpdateChart_def UpdateChartMultiData_def UpdateChartArray_def
        UpdateChartImmediate_state UpdateChartMultiDataImmediate_state
        UpdateChartArrayDataImmediate_state)

lemma Printf_d_example: "Printf_d 5 = ''5''"
  by (simp add: Printf_d_def Printf_u.simps digit_char_def)

lemma Printf_f_example: "Printf_f 6 (3 / 2) = ''1.500000''"
proof -
  have "nat (RoundHalfEven (\<bar>3 / 2 :: real\<bar> * 10 ^ 6)) = 1500000"
    by simp
  then show ?thesis
    unfolding Printf_f_def Let_def
    by (simp add: Printf_u.simps digit_char_def ZeroPad_def)
qed

text \<open>A tie: 1/128 is 0.0078125, and \<open>%f\<close> prints the even digit.\<close>

lemma Printf_f_tie_example: "Printf_f 6 (1 / 128) = ''0.007812''"
proof -
  have millionths: "nat (RoundHalfEven (\<bar>1 / 128 :: real\<bar> * 10 ^ 6)) = 7812"
    by (simp add: RoundHalfEven_def)
  have pad: "replicate 2 CHR ''0'' = ''00''"
    by (simp add: numeral_2_eq_2)
  show ?thesis
    unfolding Printf_f_def Let_def millionths
    by (simp add: Printf_u.simps digit_char_def ZeroPad_def pad)
qed

theorem update_chart_batching_witness:
  \<open>\<not> bIsInitialized_viz UDataVisualizationBridge_new \<and>
   UpdateChart V8Host 2 ''fps'' 5 (3 / 2) UDataVisualizationBridge_new = UDataVisualizationBridge_new \<and>
   bIsInitialized_viz ReadyVizBridge \<and> bEnableBatchUpdates ReadyVizBridge \<and>
   UpdateChart V8Host 2 ''fps'' 5 (3 / 2) ReadyVizBridge =
     ReadyVizBridge\<lparr>PendingUpdates :=
       [\<lparr>ChartId = ''fps'', Method = ''updateSingleData'',
         Data = ''{"timestamp": 5, "value": 1.500000}'', Timestamp = 2\<rparr>]\<rparr> \<and>
   UpdateChartMultiData V8Host 2 ''fps'' None ReadyVizBridge =
     ReadyVizBridge\<lparr>PendingUpdates :=
       [\<lparr>ChartId = ''fps'', Method = ''updateMultiData'', Data = ''{}'', Timestamp = 2\<rparr>]\<rparr> \<and>
   UpdateChartArray V8Host 2 ''fps'' [] ReadyVizBridge =
     ReadyVizBridge\<lparr>PendingUpdates :=
       [\<lparr>ChartId = ''fps'', Method = ''updateArrayData'', Data = ''[]'', Timestamp = 2\<rparr>]\<rparr> \<and>
   bIsInitialized_viz (ReadyVizBridge\<lparr>bEnableBatchUpdates := False\<rparr>) \<and>
   \<not> bEnableBatchUpdates (ReadyVizBridge\<lparr>bEnableBatchUpdates := False\<rparr>) \<and>
   WITH_V8 V8Host \<and> JavaScriptContext (ReadyVizBridge\<lparr>bEnableBatchUpdates := False\<rparr>) = Some [] \<and>
   PendingUpdates (UpdateChart V8Host 2 ''fps'' 5 (3 / 2) (ReadyVizBridge\<lparr>bEnableBatchUpdates := False\<rparr>)) = [] \<and>
   JavaScriptContext (UpdateChart V8Host 2 ''fps'' 5 (3 / 2) (ReadyVizBridge\<lparr>bEnableBatchUpdates := False\<rparr>))
     = Some [''global.vizManager.updateChart('fps', 5, 1.500000);''] \<and>
   JavaScriptContext (UpdateChartMultiData V8Host 2 ''fps'' None (ReadyVizBridge\<lparr>bEnableBatchUpdates := False\<rparr>))
     = Some [''global.vizManager.updateChartMultiData('fps', {});''] \<and>
   JavaScriptContext (UpdateChartArray V8Host 2 ''fps'' [] (ReadyVizBridge\<lparr>bEnableBatchUpdates := False\<rparr>))
     = Some [''global.vizManager.updateChartArrayData('fps', []);'']\<close>
proof -
  have new: "\<not> bIsInitialized_viz UDataVisualizationBridge_new"
    by (simp add: UDataVisualizationBridge_new_def)
  have ready: "bIsInitialized_viz ReadyVizBridge" "bEnableBatchUpdates ReadyVizBridge"
    "PendingUpdates ReadyVizBridge = []" "JavaScriptContext ReadyVizBridge = Some []"
    by (simp_all add: ReadyVizBridge_def UDataVisualizationBridge_new_def)
  have host: "WITH_V8 V8Host" "Serialize V8Host = (\<lambda>obj. ''{}'')" "SerializeArray V8Host = (\<lambda>vs. ''[]'')"
    by (simp_all add: V8Host_def)
  show ?thesis
    using update_chart_batching
            [of UDataVisualizationBridge_new V8Host 2 "''fps''" 5 "3 / 2" None "[]"]
          update_chart_batching
            [of ReadyVizBridge V8Host 2 "''fps''" 5 "3 / 2" None "[]"]
          update_chart_batching
            [of "ReadyVizBridge\<lparr>bEnableBatchUpdates := False\<rparr>" V8Host 2 "''fps''" 5 "3 / 2" None "[]" "[]"]
          new ready host
    by (simp add: Printf_d_example Printf_f_example ToFloat_examples JsonObjectToString_def
          JsonValueArrayToString_def
          UpdateChartImmediate_state UpdateChartMultiDataImmediate_state
          UpdateChartArrayDataImmediate_state)
qed

subsection \<open>The Charts map\<close>

lemma TMap_Add_Contains: "TMap_Contains (TMap_Add k v m) k"
  by (simp add: TMap_Contains_def TMap_Find_Add)

lemma TMap_Remove_Contains: "\<not> TMap_Contains (TMap_Remove k m) k"
  by (simp add: TMap_Contains_def TMap_Find_Remove)

lemma ClearAllCharts_PendingUpdates:
  "PendingUpdates (ClearAllCharts h b) = PendingUpdates b"
  by (simp add: ClearAllCharts_def Let_def split_def)

lemma Charts_CreateLineChart:
  "Charts (CreateLineChart h ChartId' Config' b) =
     (if bIsInitialized_viz b \<and>
         \<not> Contains (fst (ExecuteJavaScript h
              (''global.vizManager.createLineChart('' @ apostrophe @ ChartId' @ ''', ''
               @ JsonObjectToString h Config' @ '');'') b)) ''ERROR''
      then TMap_Add ChartId' Config' (Charts b) else Charts b)"
  by (simp add: CreateLineChart_def Let_def split_def)

lemma Charts_CreateBarChart:
  "Charts (CreateBarChart h ChartId' Config' b) =
     (if bIsInitialized_viz b \<and>
         \<not> Contains (fst (ExecuteJavaScript h
              (''global.vizManager.createBarChart('' @ apostrophe @ ChartId' @ ''', ''
               @ JsonObjectToString h Config' @ '');'') b)) ''ERROR''
      then TMap_Add ChartId' Config' (Charts b) else Charts b)"
  by (simp add: CreateBarChart_def Let_def split_def)

lemma Charts_CreatePieChart:
  "Charts (CreatePieChart h ChartId' Config' b) =
     (if bIsInitialized_viz b \<and>
         \<not> Contains (fst (ExecuteJavaScript h
              (''global.vizManager.createPieChart('' @ apostrophe @ ChartId' @ ''', ''
               @ JsonObjectToString h Config' @ '');'') b)) ''ERROR''
      then TMap_Add ChartId' Config' (Charts b) else Charts b)"
  by (simp add: CreatePieChart_def Let_def split_def)

lemma Charts_CreateHeatmap:
  "Charts (CreateHeatmap h ChartId' Config' b) =
     (if bIsInitialized_viz b \<and>
         \<not> Contains (fst (ExecuteJavaScript h
              (''global.vizManager.createHeatmap('' @ apostrophe @ ChartId' @ ''', ''
               @ JsonObjectToString h Config' @ '');'') b)) ''ERROR''
      then TMap_Add ChartId' Config' (Charts b) else Charts b)"
  by (simp add: CreateHeatmap_def Let_def split_def)

lemma Charts_CreateGauge:
  "Charts (CreateGauge h ChartId' Config' b) =
     (if bIsInitialized_viz b \<and>
         \<not> Contains (fst (ExecuteJavaScript h
              (''global.vizManager.createGauge('' @ apostrophe @ ChartId' @ ''', ''
               @ JsonObjectToString h Config' @ '');'') b)) ''ERROR''
      then TMap_Add ChartId' Config' (Charts b) else Charts b)"
  by (simp add: CreateGauge_def Let_def split_def)

lemma Charts_RemoveChart:
  "Charts (RemoveChart h ChartId' b) =
     (if bIsInitialized_viz b \<and>
         \<not> Contains (fst (ExecuteJavaScript h
              (''global.vizManager.removeChart('' @ apostrophe @ ChartId' @ ''');'') b)) ''ERROR''
      then TMap_Remove ChartId' (Charts b) else Charts b)"
  by (simp add: RemoveChart_def Let_def split_def)

lemma ClearAllCharts_maps:
  "Charts (ClearAllCharts h b) =
     (if bIsInitialized_viz b \<and>
         \<not> Contains (fst (ExecuteJavaScript h ''global.vizManager.clearAllCharts();'' b)) ''ERROR''
      then [] else Charts b)"
  "Dashboards (ClearAllCharts h b) =
     (if bIsInitialized_viz b \<and>
         \<not> Contains (fst (ExecuteJavaScript h ''global.vizManager.clearAllCharts();'' b)) ''ERROR''
      then [] else Dashboards b)"
  by (simp_all add: ClearAllCharts_def Let_def split_def)

lemma Dispose_empties:
  "Charts (Dispose h b) = []" "Dashboards (Dispose h b) = []" "PendingUpdates (Dispose h b) = []"
  by (simp_all add: Dispose_def Let_def)

text \<open>
  Claim C10 as stated fails for \<open>ClearAllCharts\<close>: it never touches \<open>PendingUpdates\<close>.  On
  an initialized bridge with one queued update, whose clearing script succeeds, the update
  is still queued afterwards.
\<close>

theorem ClearAllCharts_keeps_pending_counterexample:
  "bIsInitialized_viz (UpdateChart V8Host 2 ''fps'' 5 (3 / 2) ReadyVizBridge) \<and>
   \<not> Contains (fst (ExecuteJavaScript V8Host ''global.vizManager.clearAllCharts();''
                      (UpdateChart V8Host 2 ''fps'' 5 (3 / 2) ReadyVizBridge))) ''ERROR'' \<and>
   PendingUpdates (ClearAllCharts V8Host (UpdateChart V8Host 2 ''fps'' 5 (3 / 2) ReadyVizBridge)) \<noteq> []"
  by (simp add: ClearAllCharts_PendingUpdates UpdateChart_def ReadyVizBridge_def
        UDataVisualizationBridge_new_def ExecuteJavaScript_def V8Host_def ToUpper_def)

text \<open>
  Claim C10, amended.  Each of the five chart creation methods stores the chart id in
  \<open>Charts\<close> exactly when the bridge is initialized and the result of the creation script
  does not contain \<open>ERROR\<close>, and otherwise leaves \<open>Charts\<close> as it is.  \<open>RemoveChart\<close>
  removes the chart id under the same condition on its script and otherwise leaves
  \<open>Charts\<close> as it is.  \<open>ClearAllCharts\<close> empties \<open>Charts\<close> and \<open>Dashboards\<close> when the bridge
  is initialized and its script result does not contain \<open>ERROR\<close>, otherwise leaves both as
  they are, and never changes \<open>PendingUpdates\<close>.  \<open>Dispose\<close> leaves \<open>Charts\<close>,
  \<open>Dashboards\<close> and \<open>PendingUpdates\<close> empty.
\<close>

theorem charts_mirror_creations:
  "Charts (CreateLineChart h ChartId' Config' b) =
     (if bIsInitialized_viz b \<and>
         \<not> Contains (fst (ExecuteJavaScript h
              (''global.vizManager.createLineChart('' @ apostrophe @ ChartId' @ ''', ''
               @ JsonObjectToString h Config' @ '');'') b)) ''ERROR''
      then TMap_Add ChartId' Config' (Charts b) else Charts b) \<and>
   Charts (CreateBarChart h ChartId' Config' b) =
     (if bIsInitialized_viz b \<and>
         \<not> Contains (fst (ExecuteJavaScript h
              (''global.vizManager.createBarChart('' @ apostrophe @ ChartId' @ ''', ''
               @ JsonObjectToString h Config' @ '');'') b)) ''ERROR''
      then TMap_Add ChartId' Config' (Charts b) else Charts b) \<and>
   Charts (CreatePieChart h ChartId' Config' b) =
     (if bIsInitialized_viz b \<and>
         \<not> Contains (fst (ExecuteJavaScript h
              (''global.vizManager.createPieChart('' @ apostrophe @ ChartId' @ ''', ''
               @ JsonObjectToString h Config' @ '');'') b)) ''ERROR''
      then TMap_Add ChartId' Config' (Charts b) else Charts b) \<and>
   Charts (CreateHeatmap h ChartId' Config' b) =
     (if bIsInitialized_viz b \<and>
         \<not> Contains (fst (ExecuteJavaScript h
              (''global.vizManager.createHeatmap('' @ apostrophe @ ChartId' @ ''', ''
               @ JsonObjectToString h Config' @ '');'') b)) ''ERROR''
      then TMap_Add ChartId' Config' (Charts b) else Charts b) \<and>
   Charts (CreateGauge h ChartId' Config' b) =
     (if bIsInitialized_viz b \<and>
         \<not> Contains (fst (ExecuteJavaScript h
              (''global.vizManager.createGauge('' @ apostrophe @ ChartId' @ ''', ''
               @ JsonObjectToString h Config' @ '');'') b)) ''ERROR''
      then TMap_Add ChartId' Config' (Charts b) else Charts b) \<and>
   TMap_Contains (TMap_Add ChartId' Config' (Charts b)) ChartId' \<and>
   Charts (RemoveChart h ChartId' b) =
     (if bIsInitialized_viz b \<and>
         \<not> Contains (fst (ExecuteJavaScript h
              (''global.vizManager.removeChart('' @ apostrophe @ ChartId' @ ''');'') b)) ''ERROR''
      then TMap_Remove ChartId' (Charts b) else Charts b) \<and>
   \<not> TMap_Contains (TMap_Remove ChartId' (Charts b)) ChartId' \<and>
   Charts (ClearAllCharts h b) =
     (if bIsInitialized_viz b \<and>
         \<not> Contains (fst (ExecuteJavaScript h ''global.vizManager.clearAllCharts();'' b)) ''ERROR''
      then [] else Charts b) \<and>
   Dashboards (ClearAllCharts h b) =
     (if bIsInitialized_viz b \<and>
         \<not> Contains (fst (ExecuteJavaScript h ''global.vizManager.clearAllCharts();'' b)) ''ERROR''
      then [] else Dashboards b) \<and>
   PendingUpdates (ClearAllCharts h b) = PendingUpdates b \<and>
   Charts (Dispose h b) = [] \<and> Dashboards (Dispose h b) = [] \<and> PendingUpdates (Dispose h b) = []"
  by (simp only: Charts_CreateLineChart Charts_CreateBarChart Charts_CreatePieChart
        Charts_CreateHeatmap Charts_CreateGauge Charts_RemoveChart ClearAllCharts_maps
        ClearAllCharts_PendingUpdates Dispose_empties TMap_Add_Contains TMap_Remove_Contains
        simp_thms)

lemma V8Host_results:
  "fst (ExecuteJavaScript V8Host ''global.vizManager.createLineChart('fps', {});'' ReadyVizBridge)
     = ''SUCCESS''"
  "fst (ExecuteJavaScript V8Host ''global.vizManager.createLineChart('bad', {});'' ReadyVizBridge)
     = ''ERROR: bad chart''"
  by (simp_all add: ExecuteJavaScript_def V8Host_def ReadyVizBridge_def
        UDataVisualizationBridge_new_def ToUpper_def)

theorem charts_mirror_creations_witness:
  "Charts (CreateLineChart V8Host ''fps'' None ReadyVizBridge) = [(''fps'', None)] \<and>
   Charts (CreateLineChart V8Host ''bad'' None ReadyVizBridge) = [] \<and>
   Charts (ClearAllCharts V8Host (UDataVisualizationBridge_new\<lparr>Charts := [(''fps'', None)]\<rparr>))
     = [(''fps'', None)] \<and>
   PendingUpdates (Dispose V8Host (UpdateChart V8Host 2 ''fps'' 5 (3 / 2) ReadyVizBridge)) = []"
proof -
  have state: "bIsInitialized_viz ReadyVizBridge" "Charts ReadyVizBridge = []"
    "\<not> bIsInitialized_viz UDataVisualizationBridge_new"
    by (simp_all add: ReadyVizBridge_def UDataVisualizationBridge_new_def)
  have json: "JsonObjectToString V8Host None = ''{}''"
    by (simp add: JsonObjectToString_def)
  note good = charts_mirror_creations [of V8Host "''fps''" None ReadyVizBridge, THEN conjunct1]
  note bad = charts_mirror_creations [of V8Host "''bad''" None ReadyVizBridge, THEN conjunct1]
  note clear = charts_mirror_creations
      [of V8Host "''fps''" None "UDataVisualizationBridge_new\<lparr>Charts := [(''fps'', None)]\<rparr>",
       THEN conjunct2, THEN conjunct2, THEN conjunct2, THEN conjunct2, THEN conjunct2,
       THEN conjunct2, THEN conjunct2, THEN conjunct2, THEN conjunct1]
  note dispose = charts_mirror_creations
      [of V8Host "''fps''" None "UpdateChart V8Host 2 ''fps'' 5 (3 / 2) ReadyVizBridge",
       THEN conjunct2, THEN conjunct2, THEN conjunct2, THEN conjunct2, THEN conjunct2,
       THEN conjunct2, THEN conjunct2, THEN conjunct2, THEN conjunct2, THEN conjunct2,
       THEN conjunct2, THEN conjunct2, THEN conjunct2]
  have 1: "Charts (CreateLineChart V8Host ''fps'' None ReadyVizBridge) = [(''fps'', None)]"
    using good by (simp add: state json V8Host_results ToUpper_def)
  have 2: "Charts (CreateLineChart V8Host ''bad'' None ReadyVizBridge) = []"
    using bad by (simp add: state json V8Host_results ToUpper_def)
  have 3: "Charts (ClearAllCharts V8Host (UDataVisualizationBridge_new\<lparr>Charts := [(''fps'', None)]\<rparr>))
             = [(''fps'', None)]"
    using clear by (simp add: state)
  from 1 2 3 dispose show ?thesis by simp
qed

subsection \<open>Batched updates\<close>

lemma ProcessGroups_state:
  "\<exists>ctx out. ProcessGroups h G b = b\<lparr>JavaScriptContext := ctx, Output_viz := out\<rparr>"
proof (induction G arbitrary: b)
  case Nil
  have "b = b\<lparr>JavaScriptContext := JavaScriptContext b, Output_viz := Output_viz b\<rparr>"
    by simp
  then show ?case by (metis ProcessGroups.simps(1))
next
  case (Cons g G)
  obtain c us where g: "g = (c, us)" by (cases g)
  let ?r = "fst (ExecuteJavaScript h (BatchScript c us) b)"
  let ?b1 = "snd (ExecuteJavaScript h (BatchScript c us) b)"
  let ?b2 = "if Contains ?r ''ERROR''
             then UE_LOG_viz Error
                    (''Failed to process batched updates for '' @ apostrophe @ c @ ''': '' @ ?r) ?b1
             else ?b1"
  have step: "ProcessGroups h (g # G) b = ProcessGroups h G ?b2"
    by (simp add: g Let_def split_def)
  have "\<exists>ctx out. ?b2 = b\<lparr>JavaScriptContext := ctx, Output_viz := out\<rparr>"
  proof (cases "Contains ?r ''ERROR''")
    case True
    then have "?b2 = b\<lparr>JavaScriptContext := JavaScriptContext ?b1,
                          Output_viz := Output_viz ?b2\<rparr>"
      by (simp add: UE_LOG_viz_def ExecuteJavaScript_state)
    then show ?thesis by blast
  next
    case False
    then have "?b2 = b\<lparr>JavaScriptContext := JavaScriptContext ?b1,
                          Output_viz := Output_viz b\<rparr>"
      by (simp add: ExecuteJavaScript_state)
    then show ?thesis by blast
  qed
  then obtain ctx out where b2: "?b2 = b\<lparr>JavaScriptContext := ctx, Output_viz := out\<rparr>"
    by blast
  from Cons.IH [of ?b2] obtain ctx' out' where
    "ProcessGroups h G ?b2 = ?b2\<lparr>JavaScriptContext := ctx', Output_viz := out'\<rparr>"
    by blast
  then have "ProcessGroups h (g # G) b = b\<lparr>JavaScriptContext := ctx', Output_viz := out'\<rparr>"
    by (simp only: step b2) simp
  then show ?case by blast
qed

lemma ProcessGroups_fields [simp]:
  "bIsInitialized_viz (ProcessGroups h G b) = bIsInitialized_viz b"
  "Charts (ProcessGroups h G b) = Charts b"
  "Dashboards (ProcessGroups h G b) = Dashboards b"
  "PendingUpdates (ProcessGroups h G b) = PendingUpdates b"
  "LastBatchTime (ProcessGroups h G b) = LastBatchTime b"
  "bEnableBatchUpdates (ProcessGroups h G b) = bEnableBatchUpdates b"
  "BatchInterval (ProcessGroups h G b) = BatchInterval b"
proof -
  obtain ctx out where "ProcessGroups h G b = b\<lparr>JavaScriptContext := ctx, Output_viz := out\<rparr>"
    using ProcessGroups_state by blast
  then show
    "bIsInitialized_viz (ProcessGroups h G b) = bIsInitialized_viz b"
    "Charts (ProcessGroups h G b) = Charts b"
    "Dashboards (ProcessGroups h G b) = Dashboards b"
    "PendingUpdates (ProcessGroups h G b) = PendingUpdates b"
    "LastBatchTime (ProcessGroups h G b) = LastBatchTime b"
    "bEnableBatchUpdates (ProcessGroups h G b) = bEnableBatchUpdates b"
    "BatchInterval (ProcessGroups h G b) = BatchInterval b"
    by simp_all
qed


lemma ProcessBatchedUpdates_fields [simp]:
  "bIsInitialized_viz (ProcessBatchedUpdates h b) = bIsInitialized_viz b"
  "Charts (ProcessBatchedUpdates h b) = Charts b"
  "Dashboards (ProcessBatchedUpdates h b) = Dashboards b"
  "bEnableBatchUpdates (ProcessBatchedUpdates h b) = bEnableBatchUpdates b"
  "BatchInterval (ProcessBatchedUpdates h b) = BatchInterval b"
  "LastBatchTime (ProcessBatchedUpdates h b) = LastBatchTime b"
  by (simp_all add: ProcessBatchedUpdates_def Let_def)


subsection \<open>Periodic housekeeping\<close>

lemma UpdatePerformanceStats_fields [simp]:
  "bIsInitialized (UpdatePerformanceStats DeltaTime b) = bIsInitialized b"
  "LastGCTime (UpdatePerformanceStats DeltaTime b) = LastGCTime b"
  "Config (UpdatePerformanceStats DeltaTime b) = Config b"
  "ClockReads (UpdatePerformanceStats DeltaTime b) = ClockReads b"
  by (simp_all add: UpdatePerformanceStats_def Let_def)


lemma ExecuteScript_Config [simp]:
  "Config (snd (ExecuteScript h Script b)) = Config b"
  by (simp add: ExecuteScript_def ExecuteV8Script_def ExecuteFallbackScript_def
        RecordScriptCall_def GetCurrentTimeMilliseconds_def STEAM_AI_LOG_def STEAM_AI_ERROR_def
        Let_def split_def)










subsection \<open>Grouping the queued updates\<close>















subsection \<open>Callbacks\<close>













subsection \<open>Loading the package\<close>





subsection \<open>Vectors as JSON\<close>





















lemma Round2_two_decimals: "x * 100 \<in> \<int> \<Longrightarrow> Round2 x = x"
proof -
  assume "x * 100 \<in> \<int>"
  then obtain k :: int where k: "x * 100 = of_int k" by (auto elim: Ints_cases)
  have scaled: "\<bar>x\<bar> * 100 = of_int \<bar>k\<bar>"
    using k by (simp add: abs_mult [symmetric])
  then have "RoundHalfEven (\<bar>x\<bar> * 100) = \<bar>k\<bar>"
    by (simp only: RoundHalfEven_of_int)
  then have "real (nat (RoundHalfEven (\<bar>x\<bar> * 100))) = of_int \<bar>k\<bar>"
    by simp
  then have "real (nat (RoundHalfEven (\<bar>x\<bar> * 100))) = \<bar>x\<bar> * 100"
    using scaled by simp
  then show ?thesis
    by (simp add: Round2_def)
qed










end
